theory Spec2Isabelle
  imports Complex_Main "HOL-Library.AList"
begin

section \<open>Failures\<close>

text \<open>
  The C++ sources raise \<open>eckit::BadValue\<close> and \<open>eckit::BadParameter\<close> with a message; the
  constructors below name the situations that raise them.  \<open>OutOfRange\<close> stands for an access
  the C++ leaves undefined (\<open>operator[]\<close>, \<open>front()\<close> or \<open>back()\<close> outside the vector),
  \<open>UnknownName\<close> for \<open>std::map::at\<close> on an absent key, and \<open>LengthError\<close> for the
  \<open>std::length_error\<close> of a vector created with a size above \<open>max_size()\<close>.
\<close>

datatype error =
    InvalidQuery
  | UnknownName
  | EmptyResultSet
  | UnknownField
  | BadGroupByPath
  | BadConversion
  | BadOverrideType
  | OutOfRange
  | LengthError

section \<open>Query and QuerySet (QuerySet.cpp)\<close>

text \<open>
  \<open>Query\<close> is declared outside the two source files; \<open>QuerySet.cpp\<close> reads
  \<open>query.subset->isAnySubset\<close> and \<open>query.subset->name\<close> of it, and the result set keeps
  queries as dimension paths.
\<close>

record SubsetComponent =
  isAnySubset :: bool
  name :: string

record Query =
  subset :: SubsetComponent
  path :: "string list"

text \<open>
  The members of \<open>QuerySet\<close>.  \<open>std::set<std::string>\<close> is a set of strings;
  \<open>std::map<std::string, std::vector<Query>>\<close> is an association list with one entry per key.
\<close>

record QuerySet =
  includesAllSubsets :: bool
  addHasBeenCalled :: bool
  limitSubsets :: "string set"
  presentSubsets :: "string set"
  queryMap :: "(string \<times> Query list) list"

text \<open>\<open>QuerySet::QuerySet()\<close>.\<close>

definition QuerySet_default :: QuerySet where
  "QuerySet_default =
     \<lparr>includesAllSubsets = True, addHasBeenCalled = False,
      limitSubsets = {}, presentSubsets = {}, queryMap = []\<rparr>"

text \<open>\<open>QuerySet::QuerySet(const std::vector<std::string>& subsets)\<close>.\<close>

definition QuerySet_subsets :: "string list \<Rightarrow> QuerySet" where
  "QuerySet_subsets subsets =
     (let qs = \<lparr>includesAllSubsets = False, addHasBeenCalled = False,
                limitSubsets = set subsets, presentSubsets = {}, queryMap = []\<rparr>
      in if limitSubsets qs = {} then qs\<lparr>includesAllSubsets := True\<rparr> else qs)"

text \<open>The body of the loop of \<open>QuerySet::add\<close> for one parsed query (lines 48 to 73).\<close>

definition addQuery :: "Query \<Rightarrow> QuerySet \<Rightarrow> QuerySet" where
  "addQuery query qs =
     (if limitSubsets qs = {} then
        qs\<lparr>includesAllSubsets := isAnySubset (subset query),
           presentSubsets := insert (name (subset query)) (presentSubsets qs)\<rparr>
      else if isAnySubset (subset query) then
        qs\<lparr>presentSubsets := limitSubsets qs\<rparr>
      else
        qs\<lparr>presentSubsets :=
             limitSubsets qs \<inter> insert (name (subset query)) (presentSubsets qs)\<rparr>)"

text \<open>
  \<open>QuerySet::add\<close>.  \<open>QueryParser::parse\<close> is not part of the sources at hand, so the parser
  is the parameter \<open>parse\<close>; it may raise.  It is evaluated once, before the loop, and after the
  two flags are set: when it raises, the exception leaves \<open>add\<close> with the flags already
  written, so the result is the pair of the exception (if any) and the object afterwards.
  Line 78 assigns the local vector \<open>queries\<close>, which holds the queries of this call, to
  \<open>queryMap_[name]\<close>.
\<close>

definition add ::
  "(string \<Rightarrow> error + Query list) \<Rightarrow> string \<Rightarrow> string \<Rightarrow> QuerySet \<Rightarrow> error option \<times> QuerySet"
where
  "add parse nm queryStr qs =
     (let qs1 = (if \<not> addHasBeenCalled qs
                 then qs\<lparr>addHasBeenCalled := True, includesAllSubsets := False\<rparr>
                 else qs)
      in case parse queryStr of
           Inl e \<Rightarrow> (Some e, qs1)
         | Inr queries \<Rightarrow>
             (let qs2 = fold addQuery queries qs1
              in (None, qs2\<lparr>queryMap := AList.update nm queries (queryMap qs2)\<rparr>)))"

text \<open>\<open>QuerySet::includesSubset\<close>.\<close>

definition includesSubset :: "QuerySet \<Rightarrow> string \<Rightarrow> bool" where
  "includesSubset qs s =
     (if \<not> includesAllSubsets qs then
        (if queryMap qs = [] then s \<in> limitSubsets qs else s \<in> presentSubsets qs)
      else True)"

text \<open>\<open>QuerySet::queriesFor\<close>: \<open>std::map::at\<close> raises on an absent key.\<close>

definition queriesFor :: "QuerySet \<Rightarrow> string \<Rightarrow> error + Query list" where
  "queriesFor qs nm =
     (case map_of (queryMap qs) nm of None \<Rightarrow> Inl UnknownName | Some queries \<Rightarrow> Inr queries)"

text \<open>
  A run of calls of \<open>add\<close>, each given as the pair of its name and its query string, in order
  on the same object.
\<close>

definition addAll ::
  "(string \<Rightarrow> error + Query list) \<Rightarrow> (string \<times> string) list \<Rightarrow> QuerySet \<Rightarrow> QuerySet"
where
  "addAll parse calls qs = fold (\<lambda>(nm, queryStr) q. snd (add parse nm queryStr q)) calls qs"

text \<open>The subset names of the queries that a run of calls parses.\<close>

definition mentionedSubsets ::
  "(string \<Rightarrow> error + Query list) \<Rightarrow> (string \<times> string) list \<Rightarrow> string set"
where
  "mentionedSubsets parse calls =
     (\<Union>(nm, queryStr) \<in> set calls.
        case parse queryStr of Inl e \<Rightarrow> {} | Inr queries \<Rightarrow> set (map (\<lambda>q. name (subset q)) queries))"

section \<open>Sequencing of fallible steps\<close>

definition ebind :: "error + 'a \<Rightarrow> ('a \<Rightarrow> error + 'b) \<Rightarrow> error + 'b" where
  "ebind m f = (case m of Inl e \<Rightarrow> Inl e | Inr x \<Rightarrow> f x)"

fun foldE :: "('a \<Rightarrow> 's \<Rightarrow> error + 's) \<Rightarrow> 'a list \<Rightarrow> 's \<Rightarrow> error + 's" where
  "foldE f [] s = Inr s"
| "foldE f (x # xs) s = (case f x s of Inl e \<Rightarrow> Inl e | Inr s' \<Rightarrow> foldE f xs s')"

fun mapE :: "('a \<Rightarrow> error + 'b) \<Rightarrow> 'a list \<Rightarrow> error + 'b list" where
  "mapE f [] = Inr []"
| "mapE f (x # xs) =
     (case f x of Inl e \<Rightarrow> Inl e
      | Inr y \<Rightarrow> (case mapE f xs of Inl e \<Rightarrow> Inl e | Inr ys \<Rightarrow> Inr (y # ys)))"

section \<open>Integers of the C++ sources\<close>

text \<open>
  An \<open>int\<close> of the source is a 32-bit integer, here an \<open>int\<close> between \<open>- 2 ^ 31\<close> and
  \<open>2 ^ 31 - 1\<close>, and a \<open>size_t\<close> is a \<open>nat\<close> below \<open>2 ^ 64\<close>.  The products and
  differences of \<open>int\<close>s that the source computes are taken in 32 bits: \<open>int32\<close> is the
  two's complement wrap-around, which is what an overflowing operation (undefined in C++)
  yields on the usual builds.  The conversions between the two types, which the source
  makes implicitly, and the wrap-around of \<open>size_t\<close> arithmetic are written out.
\<close>

definition int32 :: "int \<Rightarrow> int" where
  "int32 k = (k + 2 ^ 31) mod 2 ^ 32 - 2 ^ 31"

definition size_t_of_int :: "int \<Rightarrow> nat" where
  "size_t_of_int k = nat (k mod 2 ^ 64)"

definition int_of_size_t :: "nat \<Rightarrow> int" where
  "int_of_size_t n = (int n + 2 ^ 31) mod 2 ^ 32 - 2 ^ 31"

section \<open>Helpers of VectorMath.h and the constant of Constants.h\<close>

text \<open>
  Modelled from the spec: \<open>VectorMath.h\<close> is not among the sources.  \<open>product\<close> is the
  product of the elements (1 for none), accumulated in an \<open>int\<close> as \<open>product<int>\<close> says,
  \<open>max\<close> the largest element of a non-empty vector
  (lines 244 and 273 test for emptiness before they call it), \<open>slice\<close> keeps the selected
  axes in the order of the selection, and the arithmetic operators between a vector and a
  scalar work element by element.
\<close>

definition product :: "int list \<Rightarrow> int" where
  "product v = fold (\<lambda>x acc. int32 (acc * x)) v 1"

fun maxv :: "int list \<Rightarrow> int" where
  "maxv (x # xs) = fold max xs x"

definition slice :: "int list \<Rightarrow> int list \<Rightarrow> error + int list" where
  "slice v idxs =
     mapE (\<lambda>i. if 0 \<le> i \<and> nat i < length v then Inr (v ! nat i) else Inl OutOfRange) idxs"

definition vec_times_scalar :: "int list \<Rightarrow> int \<Rightarrow> int list" where
  "vec_times_scalar v b = map (\<lambda>x. int32 (x * b)) v"

definition scalar_minus_vec :: "int \<Rightarrow> int list \<Rightarrow> int list" where
  "scalar_minus_vec a v = map (\<lambda>x. int32 (a - x)) v"

definition vec_minus_scalar :: "int list \<Rightarrow> int \<Rightarrow> int list" where
  "vec_minus_scalar v b = map (\<lambda>x. int32 (x - b)) v"

text \<open>
  Modelled from the spec: \<open>Constants.h\<close> is not among the sources; the missing-value sentinel
  is a fixed constant near \<open>1e11\<close>, taken to be the \<open>10e10\<close> that \<open>makeDataObject\<close> hands
  to the container.  A \<open>double\<close> is a \<open>real\<close>: the code under study copies and compares
  these values and does no arithmetic on them.
\<close>

definition MissingValue :: real where
  "MissingValue = 10 * 10 ^ 10"

section \<open>TypeInfo, DataField, DataFrame\<close>

text \<open>
  These types are declared outside the two source files; the fields below are the ones that
  \<open>ResultSet.cpp\<close> reads, and the name of a target, by which the lookups of a frame find
  a field.
\<close>

record TypeInfo =
  reference :: int
  bits :: int
  scale :: int
  unit :: string

record Target =
  name :: string
  dimPaths :: "Query list"
  exportDimIdxs :: "int list"
  typeInfo :: TypeInfo
  unit :: string

record DataField =
  target :: Target
  data :: "real list"
  seqCounts :: "int list list"

record DataFrame =
  dataFields :: "DataField list"

text \<open>
  What the source uses of those declarations without its being in the sources: the
  default-constructed \<open>TypeInfo\<close>, the four predicates of \<open>TypeInfo\<close> and \<open>Query::str\<close>.
  They are parameters of the functions that use them.
\<close>

record Externals =
  defaultTypeInfo :: TypeInfo
  isString :: "TypeInfo \<Rightarrow> bool"
  isInteger :: "TypeInfo \<Rightarrow> bool"
  isSigned :: "TypeInfo \<Rightarrow> bool"
  is64Bit :: "TypeInfo \<Rightarrow> bool"
  str :: "Query \<Rightarrow> string"

text \<open>
  Modelled from the spec: the methods of \<open>DataFrame\<close> are not among the sources.
  \<open>hasFieldNamed\<close> tells whether a field of the frame has the name,
  \<open>fieldIndexForNodeNamed\<close> is the index of the first field with exactly that name and
  signals \<open>UnknownField\<close> when there is none, and \<open>fieldAtIdx\<close> is addressed by index
  and checks the bounds.
\<close>

definition hasFieldNamed :: "DataFrame \<Rightarrow> string \<Rightarrow> bool" where
  "hasFieldNamed df nm = (\<exists>f \<in> set (dataFields df). Target.name (target f) = nm)"

fun indexOfName :: "string \<Rightarrow> DataField list \<Rightarrow> nat option" where
  "indexOfName nm [] = None"
| "indexOfName nm (f # fs) =
     (if Target.name (target f) = nm then Some 0
      else (case indexOfName nm fs of None \<Rightarrow> None | Some i \<Rightarrow> Some (Suc i)))"

definition fieldIndexForNodeNamed :: "DataFrame \<Rightarrow> string \<Rightarrow> error + nat" where
  "fieldIndexForNodeNamed df nm =
     (case indexOfName nm (dataFields df) of None \<Rightarrow> Inl UnknownField | Some i \<Rightarrow> Inr i)"

definition fieldAtIdx :: "DataFrame \<Rightarrow> nat \<Rightarrow> error + DataField" where
  "fieldAtIdx df i = (if i < length (dataFields df) then Inr (dataFields df ! i) else Inl OutOfRange)"

text \<open>\<open>std::vector::back\<close>, undefined on an empty vector.\<close>

definition vector_back :: "'a list \<Rightarrow> error + 'a" where
  "vector_back v = (case v of [] \<Rightarrow> Inl OutOfRange | _ # _ \<Rightarrow> Inr (last v))"

section \<open>ResultSet (ResultSet.cpp)\<close>

text \<open>
  The members \<open>names_\<close> and \<open>dataFrames_\<close>; \<open>fieldWidths\<close> is sized by the constructor
  and not read by the operations below.
\<close>

record ResultSet =
  names :: "string list"
  dataFrames :: "DataFrame list"

subsection \<open>Row inflation: \<open>ResultSet::getRowsForField\<close>\<close>

text \<open>Lines 402 to 416: the largest number of counts of a level.\<close>

definition computeMaxCounts :: "int list list \<Rightarrow> nat" where
  "computeMaxCounts counts =
     fold (\<lambda>c maxCounts. if maxCounts < length c then length c else maxCounts) counts 0"

text \<open>
  Lines 419 to 427: \<open>inserts\<close> starts as one \<open>{0}\<close> per dimension; the levels that both
  \<open>dims\<close> and \<open>seqCounts\<close> have are overwritten.
\<close>

definition computeInserts :: "int list \<Rightarrow> int list list \<Rightarrow> int list list" where
  "computeInserts dims counts =
     fold (\<lambda>repIdx inserts.
             inserts[repIdx :=
               scalar_minus_vec (product (drop repIdx dims))
                 (vec_times_scalar (counts ! repIdx) (product (drop (repIdx + 1) dims)))])
          [0..<min (length dims) (length counts)]
          (replicate (length dims) [0])"

text \<open>
  Lines 434 to 448 for one entry of \<open>inserts\<close>.  \<open>num_inserts\<close> is a \<open>size_t\<close>, so the
  anchor is computed in \<open>size_t\<close> arithmetic and then stored in the \<open>int\<close> \<open>data_idx\<close>;
  the comparison converts each index to \<open>int\<close>, and the indexes advance modulo \<open>2 ^ 64\<close>.
\<close>

definition insertStep :: "int list \<Rightarrow> int list list \<Rightarrow> nat \<Rightarrow> nat \<Rightarrow> nat list \<Rightarrow> nat list" where
  "insertStep dims inserts dim_idx insert_idx idxs =
     (let num_inserts = size_t_of_int (inserts ! dim_idx ! insert_idx)
      in if num_inserts > 0 then
           (let p = product (drop dim_idx dims);
                data_idx = int_of_size_t (size_t_of_int
                             (p * int insert_idx + p - int num_inserts - 1))
            in map (\<lambda>idx. if int_of_size_t idx > data_idx
                           then (idx + num_inserts) mod 2 ^ 64 else idx) idxs)
         else idxs)"

text \<open>Lines 430 to 450: the levels from the deepest to the first, the entries in order.\<close>

definition inflateIdxs :: "int list \<Rightarrow> int list list \<Rightarrow> nat list \<Rightarrow> nat list" where
  "inflateIdxs dims inserts idxs =
     fold (\<lambda>dim_idx. fold (insertStep dims inserts dim_idx) [0..<length (inserts ! dim_idx)])
          (rev [0..<length dims]) idxs"

text \<open>
  Lines 452 to 456.  A negative \<open>product(dims)\<close> converts to a size above \<open>max_size()\<close>; a
  write outside \<open>output\<close> is undefined in C++.
\<close>

definition scatter :: "nat list \<Rightarrow> real list \<Rightarrow> real list \<Rightarrow> error + real list" where
  "scatter idxs dat output =
     foldE (\<lambda>i out. if idxs ! i < length out then Inr (out[idxs ! i := dat ! i])
                     else Inl OutOfRange)
           [0..<length idxs] output"

definition inflate :: "DataField \<Rightarrow> int list \<Rightarrow> error + real list" where
  "inflate targetField dims =
     (let idxs = inflateIdxs dims (computeInserts dims (seqCounts targetField))
                   [0..<length (data targetField)]
      in if product dims < 0 then Inl LengthError
         else scatter idxs (data targetField) (replicate (nat (product dims)) MissingValue))"

text \<open>
  Lines 459 to 494, the rows made from \<open>output\<close>.  In the first branch a row \<open>dataRows[i]\<close>
  is written for each \<open>i < numRows\<close>, which is outside \<open>dataRows\<close> when it has fewer rows; in
  the second, \<open>dims.begin() + groupbyIdx\<close> must lie inside \<open>dims\<close>, negative sizes are above
  \<open>max_size()\<close> and every read of \<open>output\<close> must lie inside it.
\<close>

definition groupRows :: "DataField \<Rightarrow> int list \<Rightarrow> int \<Rightarrow> real list \<Rightarrow> error + real list list" where
  "groupRows targetField dims groupbyIdx output =
     (if groupbyIdx > 0 then
        (if groupbyIdx > int_of_size_t (length (seqCounts targetField)) then
           (let numRows = size_t_of_int (product dims);
                maxCounts = computeMaxCounts (seqCounts targetField);
                dataRows = replicate ((numRows * maxCounts) mod 2 ^ 64) [MissingValue]
            in foldE (\<lambda>i rows.
                        if output \<noteq> [] then
                          (if i < length rows then Inr (rows[i := (rows ! i)[0 := output ! 0]])
                           else Inl OutOfRange)
                        else Inr rows)
                     [0..<numRows] dataRows)
         else if nat groupbyIdx > length dims then Inl OutOfRange
         else if product (take (nat groupbyIdx) dims) < 0
                 \<or> product (drop (nat groupbyIdx) dims) < 0 then Inl LengthError
         else
           (let numRows = size_t_of_int (product (take (nat groupbyIdx) dims));
                rowDims = drop (nat groupbyIdx) dims;
                numsPerRow = size_t_of_int (product rowDims)
            in mapE (\<lambda>i. mapE (\<lambda>j. if i * numsPerRow + j < length output
                                      then Inr (output ! (i * numsPerRow + j))
                                      else Inl OutOfRange)
                                [0..<numsPerRow])
                    [0..<numRows]))
      else Inr [output])"

definition getRowsForField :: "DataField \<Rightarrow> int list \<Rightarrow> int \<Rightarrow> error + real list list" where
  "getRowsForField targetField dims groupbyIdx =
     ebind (inflate targetField dims) (groupRows targetField dims groupbyIdx)"

subsection \<open>Dimension solver: \<open>ResultSet::getRawValues\<close>\<close>

text \<open>\<open>ResultSet::splitPath\<close>: the components between the \<open>/\<close>, the empty ones left out.\<close>

fun splitPathFrom :: "string \<Rightarrow> string \<Rightarrow> string list" where
  "splitPathFrom cur [] = (if cur \<noteq> [] then [cur] else [])"
| "splitPathFrom cur (c # cs) =
     (if c = CHR ''/'' then
        (if cur \<noteq> [] then cur # splitPathFrom [] cs else splitPathFrom [] cs)
      else splitPathFrom (cur @ [c]) cs)"

definition splitPath :: "string \<Rightarrow> string list" where
  "splitPath p = splitPathFrom [] p"

text \<open>Lines 207 to 219: the components agree from index 1 up to the shorter length.\<close>

definition shareCommonPath :: "string list \<Rightarrow> string list \<Rightarrow> bool" where
  "shareCommonPath groupByPathComps targetPathComps =
     list_all (\<lambda>i. targetPathComps ! i = groupByPathComps ! i)
       [1..<min (length groupByPathComps) (length targetPathComps)]"

text \<open>Lines 195 to 220: the index of the group-by field, after the validation of the paths.\<close>

definition resolveGroupBy :: "Externals \<Rightarrow> DataFrame \<Rightarrow> nat \<Rightarrow> string \<Rightarrow> error + nat" where
  "resolveGroupBy ex frame0 targetFieldIdx groupByField =
     (if groupByField \<noteq> [] then
        ebind (fieldIndexForNodeNamed frame0 groupByField) (\<lambda>groupByFieldIdx.
        ebind (fieldAtIdx frame0 groupByFieldIdx) (\<lambda>groupByFieldElement.
        ebind (vector_back (dimPaths (target groupByFieldElement))) (\<lambda>groupByPath.
        ebind (fieldAtIdx frame0 targetFieldIdx) (\<lambda>targetField.
        ebind (vector_back (dimPaths (target targetField))) (\<lambda>targetPath.
          if shareCommonPath (splitPath (str ex groupByPath)) (splitPath (str ex targetPath))
          then Inr groupByFieldIdx else Inl BadGroupByPath)))))
      else Inr 0)"

text \<open>Lines 236 to 249: the per-level maxima, grown to the depth of the frame's field.\<close>

definition updateDimsList :: "int list list \<Rightarrow> int list \<Rightarrow> int list" where
  "updateDimsList counts dimsList =
     fold (\<lambda>cntIdx dl. if counts ! cntIdx \<noteq> []
                        then dl[cntIdx := max (dl ! cntIdx) (maxv (counts ! cntIdx))] else dl)
          [0..<length counts]
          (if length dimsList < length counts
           then dimsList @ replicate (length counts - length dimsList) 0 else dimsList)"

text \<open>Lines 251 to 259: the merge of the \<open>TypeInfo\<close> of one frame into the accumulated one.\<close>

definition mergeTypeInfo :: "TypeInfo \<Rightarrow> TypeInfo \<Rightarrow> TypeInfo" where
  "mergeTypeInfo info ti =
     (let info1 = info\<lparr>reference := min (reference info) (reference ti),
                       bits := max (bits info) (bits ti)\<rparr>;
          info2 = (if \<bar>scale ti\<bar> > scale info1 then info1\<lparr>scale := scale ti\<rparr> else info1)
      in if TypeInfo.unit info2 = [] then info2\<lparr>TypeInfo.unit := TypeInfo.unit ti\<rparr> else info2)"

text \<open>Lines 270 to 277.\<close>

definition groupbyElementsForFrame :: "int list list \<Rightarrow> int" where
  "groupbyElementsForFrame counts =
     fold (\<lambda>seqCount n. if seqCount \<noteq> [] then int32 (n * maxv seqCount) else n) counts 1"

text \<open>The variables that the loop over the frames (lines 226 to 292) updates.\<close>

record Solver =
  dimPathsAcc :: "Query list"
  exportDims :: "int list"
  dimsList :: "int list"
  info :: TypeInfo
  groupbyIdx :: int
  totalGroupbyElements :: int

text \<open>
  The body of that loop for one frame.  In the last branch \<open>targetIdx\<close> is a \<open>size_t\<close> that
  starts at \<open>exportDimIdxs.size() - 1\<close>: with no export dimension it starts at the largest
  \<open>size_t\<close> and the loop does not run.
\<close>

definition frameStep :: "string \<Rightarrow> nat \<Rightarrow> nat \<Rightarrow> DataFrame \<Rightarrow> Solver \<Rightarrow> error + Solver" where
  "frameStep groupByField targetFieldIdx groupByFieldIdx dataFrame st =
     ebind (fieldAtIdx dataFrame targetFieldIdx) (\<lambda>targetField.
       let tgt = target targetField;
           st1 = (if dimPaths tgt \<noteq> [] \<and> length (dimPathsAcc st) < length (dimPaths tgt)
                  then st\<lparr>dimPathsAcc := dimPaths tgt, exportDims := exportDimIdxs tgt\<rparr>
                  else st);
           st2 = st1\<lparr>dimsList := updateDimsList (seqCounts targetField) (dimsList st1),
                     info := mergeTypeInfo (info st1) (typeInfo tgt)\<rparr>
       in if groupByField \<noteq> [] then
            ebind (fieldAtIdx dataFrame groupByFieldIdx) (\<lambda>groupByFld.
              let st3 = st2\<lparr>groupbyIdx := max (groupbyIdx st2)
                                             (int_of_size_t (length (seqCounts groupByFld)))\<rparr>
              in if groupbyIdx st3 > int_of_size_t (length (dimsList st3)) then
                   ebind (vector_back (dimPaths (target groupByFld))) (\<lambda>groupByPath.
                     Inr (st3\<lparr>dimPathsAcc := [groupByPath],
                              totalGroupbyElements :=
                                max (totalGroupbyElements st3)
                                    (groupbyElementsForFrame (seqCounts groupByFld))\<rparr>))
                 else
                   Inr (st3\<lparr>dimPathsAcc :=
                              (if exportDimIdxs (target groupByFld) = [] then []
                               else drop (length (exportDimIdxs (target groupByFld)) - 1)
                                         (dimPaths tgt))\<rparr>))
          else Inr st2)"

text \<open>Lines 300 to 306.\<close>

definition promoteZeroDims :: "int list \<Rightarrow> int list" where
  "promoteZeroDims dl = map (\<lambda>d. if d = 0 then 1 else d) dl"

text \<open>Lines 331 to 348: the export dimensions under a group-by of lower repetition level.\<close>

definition shiftExportDims :: "int list \<Rightarrow> int \<Rightarrow> int list" where
  "shiftExportDims ed g =
     (let filteredExportDims = filter (\<lambda>e. e \<ge> 0) (vec_minus_scalar ed (int32 (g - 1)))
      in if filteredExportDims = [] \<or> hd filteredExportDims \<noteq> 0
         then 0 # filteredExportDims else filteredExportDims)"

text \<open>
  Lines 308 to 354: the triple of \<open>dims\<close>, \<open>exportDims\<close> and \<open>allDims\<close>.  \<open>dims\<close> comes in
  empty from \<open>get\<close>, so each \<open>resize\<close> fills it with its second argument.
\<close>

definition reshapeDims :: "Solver \<Rightarrow> int list \<times> int list \<times> int list" where
  "reshapeDims st =
     (let allDims = promoteZeroDims (dimsList st);
          g = groupbyIdx st
      in if g > 0 then
           (if g > int_of_size_t (length (dimsList st)) then
              ([totalGroupbyElements st], [0], [totalGroupbyElements st])
            else
              (let dims0 = replicate (length (dimsList st) - nat g + 1) 1;
                   dims1 = fold (\<lambda>dimIdx d. d[0 := int32 (d ! 0 * allDims ! dimIdx)])
                                [0..<nat g] dims0;
                   dims2 = fold (\<lambda>dimIdx d. d[dimIdx - nat g + 1 := allDims ! dimIdx])
                                [nat g..<length allDims] dims1
               in (dims2, shiftExportDims (exportDims st) g, allDims)))
         else (allDims, exportDims st, allDims))"

text \<open>
  Lines 378 to 386: the rows of one frame written into \<open>data\<close>; the index is computed in
  \<open>size_t\<close> arithmetic and a write outside \<open>data\<close> is undefined in C++.
\<close>

definition writeRow :: "nat \<Rightarrow> nat \<Rightarrow> nat \<Rightarrow> real list \<Rightarrow> real list \<Rightarrow> error + real list" where
  "writeRow dataRowIdx rowLength rowIdx row dat =
     foldE (\<lambda>colIdx d.
              let i = (dataRowIdx * rowLength + rowIdx * length row + colIdx) mod 2 ^ 64
              in if i < length d then Inr (d[i := row ! colIdx]) else Inl OutOfRange)
           [0..<length row] dat"

definition writeRows :: "nat \<Rightarrow> nat \<Rightarrow> real list list \<Rightarrow> real list \<Rightarrow> error + real list" where
  "writeRows dataRowIdx rowLength frameData dat =
     foldE (\<lambda>rowIdx. writeRow dataRowIdx rowLength rowIdx (frameData ! rowIdx))
           [0..<length frameData] dat"

text \<open>Lines 366 to 388 for the frame at \<open>frameIdx\<close>.\<close>

definition fillFrame ::
  "nat \<Rightarrow> int list \<Rightarrow> int list \<Rightarrow> int \<Rightarrow> int \<Rightarrow> DataFrame list \<Rightarrow> nat \<Rightarrow> real list \<Rightarrow> error + real list"
where
  "fillFrame targetFieldIdx dims allDims g rowLength frames frameIdx dat =
     ebind (fieldAtIdx (frames ! frameIdx) targetFieldIdx) (\<lambda>targetField.
       if data targetField \<noteq> [] then
         ebind (getRowsForField targetField allDims g) (\<lambda>frameData.
           writeRows ((size_t_of_int (hd dims) * frameIdx) mod 2 ^ 64)
                     (size_t_of_int rowLength) frameData dat)
       else Inr dat)"

text \<open>
  \<open>getRawValues\<close>.  The result is the tuple of the four output parameters \<open>data\<close>, \<open>dims\<close>,
  \<open>dimPaths\<close> and \<open>info\<close>; the first three come in empty from \<open>get\<close> and \<open>info\<close> comes in
  default-constructed.  \<open>dataFrames_[0]\<close> and \<open>dims[0]\<close> are undefined on an empty vector.
\<close>

definition getRawValues ::
  "Externals \<Rightarrow> ResultSet \<Rightarrow> string \<Rightarrow> string \<Rightarrow> TypeInfo
     \<Rightarrow> error + (real list \<times> int list \<times> Query list \<times> TypeInfo)"
where
  "getRawValues ex rs fieldName groupByField info0 =
     (case dataFrames rs of
        [] \<Rightarrow> Inl OutOfRange
      | frame0 # _ \<Rightarrow>
        ebind (fieldIndexForNodeNamed frame0 fieldName) (\<lambda>targetFieldIdx.
        ebind (resolveGroupBy ex frame0 targetFieldIdx groupByField) (\<lambda>groupByFieldIdx.
        ebind (fieldAtIdx frame0 targetFieldIdx) (\<lambda>targetField.
        ebind (foldE (frameStep groupByField targetFieldIdx groupByFieldIdx) (dataFrames rs)
                 \<lparr>dimPathsAcc = dimPaths (target targetField),
                  exportDims = exportDimIdxs (target targetField),
                  dimsList = [], info = info0, groupbyIdx = 0, totalGroupbyElements = 0\<rparr>)
          (\<lambda>st.
        case reshapeDims st of (dims, exportDims', allDims) \<Rightarrow>
          if dims = [] then Inl OutOfRange
          else
            (let totalRows = (size_t_of_int (hd dims) * length (dataFrames rs)) mod 2 ^ 64;
                 rowLength = fold (\<lambda>dimIdx r. int32 (r * dims ! dimIdx)) [1..<length dims] 1;
                 data0 = replicate ((totalRows * size_t_of_int rowLength) mod 2 ^ 64) MissingValue
             in ebind (foldE (fillFrame targetFieldIdx dims allDims (groupbyIdx st) rowLength
                                (dataFrames rs))
                         [0..<length (dataFrames rs)] data0) (\<lambda>dat.
                ebind (slice (dims[0 := int_of_size_t totalRows]) exportDims') (\<lambda>dimsOut.
                  Inr (dat, dimsOut, dimPathsAcc st, info st)))))))))"

subsection \<open>The typed container: \<open>makeDataObject\<close>, \<open>objectByTypeInfo\<close>, \<open>objectByType\<close>\<close>

text \<open>The element types that \<open>DataObject<T>\<close> is instantiated with.\<close>

datatype ElemKind = Int32 | Int64 | UInt32 | UInt64 | Float32 | Float64 | String

text \<open>
  Modelled from the spec: \<open>DataObject\<close> is not among the sources.  The container carries its
  element kind, the dense buffer, the dims, the field name, the group-by field name and the
  dimension paths.  A cell of the buffer is the container's own missing marker or a value; the
  value is kept as the \<open>double\<close> it came from, the conversion to the element type (for a
  string, the reinterpretation of the eight bytes as characters) is left out.  \<open>setData\<close>
  is given the missing sentinel of the dense data as its threshold.  In a numeric container a
  cell whose magnitude is at or above the threshold becomes the missing marker.  In a string
  container the threshold is not applied to the lanes: only a lane that is the sentinel itself
  is the missing marker.
\<close>

datatype cell = MissingCell | Value real

record DataObject =
  kind :: ElemKind
  objData :: "cell list"
  objDims :: "int list"
  objFieldName :: string
  objGroupByFieldName :: string
  objDimPaths :: "Query list"

definition isMissingLane :: "ElemKind \<Rightarrow> real \<Rightarrow> real \<Rightarrow> bool" where
  "isMissingLane k dataMissingValue x =
     (if k = String then x = dataMissingValue else \<bar>x\<bar> \<ge> dataMissingValue)"

definition setData :: "real list \<Rightarrow> real \<Rightarrow> DataObject \<Rightarrow> DataObject" where
  "setData dat dataMissingValue obj =
     obj\<lparr>objData :=
           map (\<lambda>x. if isMissingLane (kind obj) dataMissingValue x then MissingCell else Value x)
               dat\<rparr>"

definition emptyObject :: "ElemKind \<Rightarrow> DataObject" where
  "emptyObject k =
     \<lparr>kind = k, objData = [], objDims = [], objFieldName = [], objGroupByFieldName = [],
      objDimPaths = []\<rparr>"

text \<open>\<open>ResultSet::objectByTypeInfo\<close>.\<close>

definition objectByTypeInfo :: "Externals \<Rightarrow> TypeInfo \<Rightarrow> DataObject" where
  "objectByTypeInfo ex ti =
     emptyObject
       (if isString ex ti then String
        else if isInteger ex ti then
          (if isSigned ex ti then (if is64Bit ex ti then Int64 else Int32)
           else (if is64Bit ex ti then UInt64 else UInt32))
        else (if is64Bit ex ti then Float64 else Float32))"

text \<open>\<open>ResultSet::objectByType\<close>.\<close>

definition objectByType :: "string \<Rightarrow> error + DataObject" where
  "objectByType overrideType =
     (if overrideType = ''int'' \<or> overrideType = ''int32'' then Inr (emptyObject Int32)
      else if overrideType = ''float'' \<or> overrideType = ''float32'' then Inr (emptyObject Float32)
      else if overrideType = ''double'' \<or> overrideType = ''float64'' then Inr (emptyObject Float64)
      else if overrideType = ''string'' then Inr (emptyObject String)
      else if overrideType = ''int64'' then Inr (emptyObject Int64)
      else if overrideType = ''uint64'' then Inr (emptyObject UInt64)
      else if overrideType = ''uint32'' \<or> overrideType = ''uint'' then Inr (emptyObject UInt32)
      else Inl BadOverrideType)"

text \<open>The type names that \<open>objectByType\<close> accepts other than \<open>string\<close>.\<close>

definition numericOverrides :: "string list" where
  "numericOverrides =
     [''int'', ''int32'', ''float'', ''float32'', ''double'', ''float64'', ''int64'', ''uint64'',
      ''uint32'', ''uint'']"

text \<open>
  \<open>ResultSet::makeDataObject\<close>.  The literal on line 531 is \<open>10e10\<close>, ten times
  \<open>10 ^ 10\<close>.
\<close>

definition makeDataObject ::
  "Externals \<Rightarrow> string \<Rightarrow> string \<Rightarrow> TypeInfo \<Rightarrow> string \<Rightarrow> real list \<Rightarrow> int list \<Rightarrow> Query list
     \<Rightarrow> error + DataObject"
where
  "makeDataObject ex fieldName groupByFieldName ti overrideType dat dims dimPaths' =
     ebind (if overrideType = [] then Inr (objectByTypeInfo ex ti)
            else ebind (objectByType overrideType) (\<lambda>object.
                   if (overrideType = ''string'' \<and> \<not> isString ex ti)
                      \<or> (overrideType \<noteq> ''string'' \<and> isString ex ti)
                   then Inl BadConversion else Inr object))
       (\<lambda>object.
          Inr ((setData dat (10 * 10 ^ 10) object)
                 \<lparr>objDims := dims, objFieldName := fieldName,
                  objGroupByFieldName := groupByFieldName, objDimPaths := dimPaths'\<rparr>))"

subsection \<open>The public operations \<open>get\<close> and \<open>unit\<close>\<close>

text \<open>\<open>ResultSet::get\<close>.\<close>

definition get :: "Externals \<Rightarrow> ResultSet \<Rightarrow> string \<Rightarrow> string \<Rightarrow> string \<Rightarrow> error + DataObject" where
  "get ex rs fieldName groupByFieldName overrideType =
     (case dataFrames rs of
        [] \<Rightarrow> Inl EmptyResultSet
      | frame0 # _ \<Rightarrow>
          if \<not> hasFieldNamed frame0 fieldName then Inl UnknownField
          else if groupByFieldName \<noteq> [] \<and> \<not> hasFieldNamed frame0 groupByFieldName
          then Inl UnknownField
          else
            ebind (getRawValues ex rs fieldName groupByFieldName (defaultTypeInfo ex))
              (\<lambda>(dat, dims, dimPaths', ti).
                 makeDataObject ex fieldName groupByFieldName ti overrideType dat dims dimPaths'))"

text \<open>
  \<open>ResultSet::unit\<close>.  \<open>dataFrames_.front()\<close> is undefined on an empty vector; the method is
  \<open>const\<close> and returns the string only.
\<close>

definition unit :: "ResultSet \<Rightarrow> string \<Rightarrow> error + string" where
  "unit rs fieldName =
     (case dataFrames rs of
        [] \<Rightarrow> Inl OutOfRange
      | front # _ \<Rightarrow>
          ebind (fieldIndexForNodeNamed front fieldName) (\<lambda>fieldIdx.
          ebind (fieldAtIdx front fieldIdx) (\<lambda>field. Inr (Target.unit (target field)))))"

section \<open>Inputs of the examples\<close>

text \<open>
  A parser given by a finite table from query strings to the queries they parse to; a string
  outside the table is malformed.
\<close>

definition parseTable :: "(string \<times> Query list) list \<Rightarrow> string \<Rightarrow> error + Query list" where
  "parseTable tbl s =
     (case map_of tbl s of None \<Rightarrow> Inl InvalidQuery | Some queries \<Rightarrow> Inr queries)"

definition literalQuery :: "string \<Rightarrow> string list \<Rightarrow> Query" where
  "literalQuery s p = \<lparr>subset = \<lparr>isAnySubset = False, name = s\<rparr>, path = p\<rparr>"

definition wildcardQuery :: "string list \<Rightarrow> Query" where
  "wildcardQuery p = \<lparr>subset = \<lparr>isAnySubset = True, name = ''*''\<rparr>, path = p\<rparr>"

text \<open>
  One choice of the declarations outside the sources: a default \<open>TypeInfo\<close> of zeros and an
  empty unit, a string type marked by its unit, and the path string of a query with \<open>/\<close>
  between the components.
\<close>

definition exampleExternals :: Externals where
  "exampleExternals =
     \<lparr>defaultTypeInfo = \<lparr>reference = 0, bits = 0, scale = 0, TypeInfo.unit = []\<rparr>,
      isString = (\<lambda>ti. TypeInfo.unit ti = ''CCITT IA5''),
      isInteger = (\<lambda>ti. scale ti \<le> 0),
      isSigned = (\<lambda>ti. reference ti < 0),
      is64Bit = (\<lambda>ti. bits ti > 32),
      str = (\<lambda>q. SubsetComponent.name (subset q) @ concat (map (\<lambda>c. CHR ''/'' # c) (path q)))\<rparr>"

text \<open>
  A field named \<open>T\<close> with the given scale, export dimensions, data and sequence counts, and
  a result set whose frames hold one such field each.
\<close>

definition fieldT :: "int \<Rightarrow> int list \<Rightarrow> real list \<Rightarrow> int list list \<Rightarrow> DataField" where
  "fieldT sc ed dat counts =
     \<lparr>target = \<lparr>Target.name = ''T'', dimPaths = [wildcardQuery [''T'']], exportDimIdxs = ed,
                typeInfo = \<lparr>reference = 0, bits = 12, scale = sc, TypeInfo.unit = ''K''\<rparr>,
                Target.unit = ''K''\<rparr>,
      data = dat, seqCounts = counts\<rparr>"

definition framesOf :: "DataField list \<Rightarrow> ResultSet" where
  "framesOf flds = \<lparr>names = [''T''], dataFrames = map (\<lambda>f. \<lparr>dataFields = [f]\<rparr>) flds\<rparr>"

text \<open>
  A field of the given name whose one dimension path is the wildcard query of the given path
  components, with a numeric type, one value and the single sequence count 1.
\<close>

definition fieldOnPath :: "string \<Rightarrow> string list \<Rightarrow> DataField" where
  "fieldOnPath nm p =
     \<lparr>target = \<lparr>Target.name = nm, dimPaths = [wildcardQuery p], exportDimIdxs = [0],
                typeInfo = \<lparr>reference = 0, bits = 12, scale = 1, TypeInfo.unit = ''K''\<rparr>,
                Target.unit = ''K''\<rparr>,
      data = [1], seqCounts = [[1]]\<rparr>"

text \<open>What a restricted query set keeps true under \<open>add\<close>.\<close>

definition restrictedInv :: "string set \<Rightarrow> QuerySet \<Rightarrow> bool" where
  "restrictedInv S qs \<longleftrightarrow> limitSubsets qs = S \<and> \<not> includesAllSubsets qs \<and> presentSubsets qs \<subseteq> S"

section \<open>Basic facts\<close>

lemma ebind_Inr [simp]: "ebind (Inr x) f = f x"
  by (simp add: ebind_def)

lemma ebind_Inl [simp]: "ebind (Inl e) f = Inl e"
  by (simp add: ebind_def)

lemma foldE_append:
  "foldE f (xs @ ys) s = (case foldE f xs s of Inl e \<Rightarrow> Inl e | Inr s' \<Rightarrow> foldE f ys s')"
  by (induction xs arbitrary: s) (auto split: sum.splits)

lemma fold_unchanged: "(\<And>x t. x \<in> set xs \<Longrightarrow> f x t = t) \<Longrightarrow> fold f xs s = s"
  by (induction xs) auto

lemma length_fold_update [simp]: "length (fold (\<lambda>i l. l[i := g i]) xs l) = length l"
  by (induction xs arbitrary: l) auto

lemma fold_update_nth:
  "n \<le> length l \<Longrightarrow> k < length l \<Longrightarrow>
   fold (\<lambda>i l. l[i := g i]) [0..<n] l ! k = (if k < n then g k else l ! k)"
proof (induction n)
  case 0
  then show ?case by simp
next
  case (Suc n)
  then show ?case by (auto simp: nth_list_update less_Suc_eq)
qed

lemma int32_mod: "int32 a mod 2 ^ 32 = a mod 2 ^ 32"
proof -
  have "int32 a mod 2 ^ 32 = ((a + 2 ^ 31) mod 2 ^ 32 - 2 ^ 31) mod 2 ^ 32"
    by (simp add: int32_def)
  also have "\<dots> = (a + 2 ^ 31 - 2 ^ 31) mod 2 ^ 32"
    by (rule mod_diff_left_eq)
  finally show ?thesis by simp
qed

lemma int32_cong: "a mod 2 ^ 32 = b mod 2 ^ 32 \<Longrightarrow> int32 a = int32 b"
proof -
  assume "a mod 2 ^ 32 = b mod 2 ^ 32"
  then have "(a + 2 ^ 31) mod 2 ^ 32 = (b + 2 ^ 31) mod 2 ^ 32"
    by (rule mod_add_cong) simp
  then show ?thesis by (simp add: int32_def)
qed

lemma int32_mult_left [simp]: "int32 (int32 a * b) = int32 (a * b)"
  by (rule int32_cong) (metis int32_mod mod_mult_left_eq)

lemma int32_mult_right [simp]: "int32 (a * int32 b) = int32 (a * b)"
  by (rule int32_cong) (metis int32_mod mod_mult_right_eq)

lemma int32_small: "- (2 ^ 31) \<le> k \<Longrightarrow> k < 2 ^ 31 \<Longrightarrow> int32 k = k"
  by (simp add: int32_def)

lemma int32_0 [simp]: "int32 0 = 0"
  by (simp add: int32_def)

lemma int32_1 [simp]: "int32 1 = 1"
  by (simp add: int32_def)

lemma fold_product: "fold (\<lambda>x acc. int32 (acc * x)) v (int32 a) = int32 (a * prod_list v)"
proof (induction v arbitrary: a)
  case Nil
  then show ?case by simp
next
  case (Cons x v)
  have "fold (\<lambda>x acc. int32 (acc * x)) (x # v) (int32 a) =
        fold (\<lambda>x acc. int32 (acc * x)) v (int32 (a * x))"
    by simp
  also have "\<dots> = int32 (a * x * prod_list v)" by (rule Cons.IH)
  finally show ?case by (simp add: mult.assoc)
qed

lemma product_prod_list: "product v = int32 (prod_list v)"
  using fold_product [of v 1] by (simp add: product_def)

lemma product_drop:
  "k < length dims \<Longrightarrow> product (drop k dims) = int32 (dims ! k * product (drop (Suc k) dims))"
  by (simp add: product_prod_list flip: Cons_nth_drop_Suc)


lemma length_computeInserts [simp]: "length (computeInserts dims counts) = length dims"
  by (simp add: computeInserts_def)

lemma computeInserts_regular:
  assumes reg: "\<forall>r < min (length dims) (length counts). \<forall>c \<in> set (counts ! r). c = dims ! r"
    and k: "k < length dims" and x: "x \<in> set (computeInserts dims counts ! k)"
  shows "x = 0"
proof (cases "k < min (length dims) (length counts)")
  case True
  have "computeInserts dims counts ! k =
      scalar_minus_vec (product (drop k dims))
        (vec_times_scalar (counts ! k) (product (drop (k + 1) dims)))"
    unfolding computeInserts_def using True k by (subst fold_update_nth) simp_all
  with x obtain c where c: "c \<in> set (counts ! k)"
    and xc: "x = int32 (product (drop k dims) - int32 (c * product (drop (Suc k) dims)))"
    by (auto simp: scalar_minus_vec_def vec_times_scalar_def)
  from reg True c have "c = dims ! k" by blast
  with xc product_drop [OF k] show ?thesis by simp
next
  case False
  have "computeInserts dims counts ! k = [0]"
    unfolding computeInserts_def using False k by (subst fold_update_nth) simp_all
  with x show ?thesis by simp
qed

lemma insertStep_zero: "inserts ! d ! i = 0 \<Longrightarrow> insertStep dims inserts d i idxs = idxs"
  by (simp add: insertStep_def size_t_of_int_def)

lemma inflateIdxs_zero:
  assumes "length inserts = length dims"
    and z: "\<And>k x. k < length dims \<Longrightarrow> x \<in> set (inserts ! k) \<Longrightarrow> x = 0"
  shows "inflateIdxs dims inserts idxs = idxs"
  unfolding inflateIdxs_def
proof (rule fold_unchanged)
  fix d t assume "d \<in> set (rev [0..<length dims])"
  then have d: "d < length dims" by simp
  show "fold (insertStep dims inserts d) [0..<length (inserts ! d)] t = t"
  proof (rule fold_unchanged)
    fix i u assume "i \<in> set [0..<length (inserts ! d)]"
    then have "inserts ! d ! i \<in> set (inserts ! d)" by simp
    with z [OF d] have "inserts ! d ! i = 0" by blast
    then show "insertStep dims inserts d i u = u" by (rule insertStep_zero)
  qed
qed

lemma scatter_prefix:
  "k \<le> length dat \<Longrightarrow> k \<le> n \<Longrightarrow>
   foldE (\<lambda>i out. if [0..<length dat] ! i < length out
                   then Inr (out[[0..<length dat] ! i := dat ! i]) else Inl OutOfRange)
         [0..<k] (replicate n m) = Inr (take k dat @ replicate (n - k) m)"
proof (induction k)
  case 0
  then show ?case by simp
next
  case (Suc k)
  then have k: "k < length dat" "k < n" by simp_all
  have upd: "(take k dat @ replicate (n - k) m)[k := dat ! k] =
             take (Suc k) dat @ replicate (n - Suc k) m"
  proof -
    from k have "replicate (n - k) m = m # replicate (n - Suc k) m"
      by (cases "n - k") simp_all
    with k show ?thesis by (simp add: list_update_append take_Suc_conv_app_nth)
  qed
  from Suc k upd show ?case by (simp add: foldE_append)
qed

lemma scatter_iota:
  "length dat \<le> n \<Longrightarrow>
   scatter [0..<length dat] dat (replicate n m) = Inr (dat @ replicate (n - length dat) m)"
  using scatter_prefix [of "length dat" dat n m] by (simp add: scatter_def)

lemma scatter_overflow:
  assumes "n < length dat"
  shows "scatter [0..<length dat] dat (replicate n m) = Inl OutOfRange"
proof -
  have split: "[0..<length dat] = [0..<n] @ n # [Suc n..<length dat]"
    using assms by (metis le_add1 less_imp_add_positive upt_add_eq_append upt_conv_Cons zero_le)
  have pre: "foldE (\<lambda>i out. if [0..<length dat] ! i < length out
                   then Inr (out[[0..<length dat] ! i := dat ! i]) else Inl OutOfRange)
         [0..<n] (replicate n m) = Inr (take n dat @ replicate (n - n) m)"
    using assms by (intro scatter_prefix) simp_all
  have "foldE (\<lambda>i out. if [0..<length dat] ! i < length out
                   then Inr (out[[0..<length dat] ! i := dat ! i]) else Inl OutOfRange)
         ([0..<n] @ n # [Suc n..<length dat]) (replicate n m) = Inl OutOfRange"
    using assms by (simp add: foldE_append pre)
  then show ?thesis unfolding scatter_def by (simp flip: split)
qed

lemma inflateIdxs_regular:
  assumes "\<forall>r < min (length dims) (length counts). \<forall>c \<in> set (counts ! r). c = dims ! r"
  shows "inflateIdxs dims (computeInserts dims counts) idxs = idxs"
  by (rule inflateIdxs_zero) (auto dest: computeInserts_regular [OF assms])

text \<open>
  With regular counts and more data than the product of \<open>dims\<close>, line 455 writes outside
  \<open>output\<close>.
\<close>

lemma getRowsForField_regular_too_long:
  assumes "\<forall>r < min (length dims) (length (seqCounts f)).
             \<forall>c \<in> set (seqCounts f ! r). c = dims ! r"
    and "0 \<le> product dims" and "nat (product dims) < length (data f)"
  shows "getRowsForField f dims g = Inl OutOfRange"
  using assms(2) scatter_overflow [OF assms(3)]
  by (simp add: getRowsForField_def inflate_def inflateIdxs_regular [OF assms(1)])

lemma regular_rows:
  assumes reg: "\<forall>r < min (length dims) (length (seqCounts f)).
                  \<forall>c \<in> set (seqCounts f ! r). c = dims ! r"
    and fit: "int (length (data f)) \<le> product dims"
  shows "getRowsForField f dims 0 =
         Inr [data f @ replicate (nat (product dims) - length (data f)) MissingValue]"
proof -
  have idxs: "inflateIdxs dims (computeInserts dims (seqCounts f)) [0..<length (data f)] =
              [0..<length (data f)]"
    by (rule inflateIdxs_regular [OF reg])
  from fit have nonneg: "\<not> product dims < 0" and le: "length (data f) \<le> nat (product dims)"
    by linarith+
  have "inflate f dims =
        Inr (data f @ replicate (nat (product dims) - length (data f)) MissingValue)"
    using nonneg scatter_iota [OF le] by (simp add: inflate_def idxs)
  then show ?thesis by (simp add: getRowsForField_def groupRows_def)
qed

lemma mergeTypeInfo_scale:
  "scale (mergeTypeInfo acc ti) = (if \<bar>scale ti\<bar> > scale acc then scale ti else scale acc)"
  by (simp add: mergeTypeInfo_def Let_def)

lemma indexOfName_Some:
  "indexOfName nm fs = Some i \<Longrightarrow> i < length fs \<and> Target.name (target (fs ! i)) = nm"
  by (induction fs arbitrary: i) (auto split: if_splits option.splits)

lemma indexOfName_None: "indexOfName nm fs = None \<longleftrightarrow> (\<forall>f \<in> set fs. Target.name (target f) \<noteq> nm)"
  by (induction fs) (auto split: option.splits)

lemma fieldIndexForNodeNamed_Inr:
  "fieldIndexForNodeNamed df nm = Inr i \<Longrightarrow>
   fieldAtIdx df i = Inr (dataFields df ! i) \<and> Target.name (target (dataFields df ! i)) = nm \<and> hasFieldNamed df nm"
  by (auto simp: fieldIndexForNodeNamed_def fieldAtIdx_def hasFieldNamed_def
           dest!: indexOfName_Some split: option.splits)

lemma hasFieldNamed_index:
  "hasFieldNamed df nm \<longleftrightarrow> (\<exists>i. fieldIndexForNodeNamed df nm = Inr i)"
  using indexOfName_None [of nm "dataFields df"]
  by (auto simp: fieldIndexForNodeNamed_def hasFieldNamed_def split: option.splits)

lemma frameStep_no_groupby:
  "fieldAtIdx frame i = Inr fld \<Longrightarrow>
   frameStep [] i g frame st =
     Inr (st\<lparr>dimPathsAcc := (if dimPaths (target fld) \<noteq> [] \<and> length (dimPathsAcc st) < length (dimPaths (target fld))
                            then dimPaths (target fld) else dimPathsAcc st),
            exportDims := (if dimPaths (target fld) \<noteq> [] \<and> length (dimPathsAcc st) < length (dimPaths (target fld))
                            then exportDimIdxs (target fld) else exportDims st),
            dimsList := updateDimsList (seqCounts fld) (dimsList st),
            info := mergeTypeInfo (info st) (typeInfo (target fld))\<rparr>)"
  by (simp add: frameStep_def Let_def)

lemma list_update_Cons_numeral:
  "(x # xs)[numeral v := y] = x # xs[numeral v - 1 := y]"
  by (simp add: numeral_eq_Suc)

lemma replicate_numeral: "replicate (numeral v) x = x # replicate (numeral v - 1) x"
  by (simp add: numeral_eq_Suc)

lemmas eval_list = upt_conv_Cons list_update_Cons_numeral replicate_numeral

lemma ragged_rows:
  assumes "data fld = [1, 2, 3, 4, 5]" and "seqCounts fld = [[2], [2, 3]]"
  shows "getRowsForField fld [2, 3] 0 = Inr [[1, 2, MissingValue, 3, 4, 5]]"
proof -
  have ins: "computeInserts [2, 3] [[2], [2, 3]] = [[0], [1, 0]]"
    by (simp add: computeInserts_def eval_list product_def int32_def scalar_minus_vec_def
          vec_times_scalar_def)
  have idxs: "inflateIdxs [2, 3] [[0], [1, 0]] [0, 1, 2, 3, 4] = [0, 1, 3, 4, 5]"
    by (simp add: inflateIdxs_def eval_list product_def int32_def insertStep_def Let_def
          int_of_size_t_def size_t_of_int_def)
  have sc: "scatter [0, 1, 3, 4, 5] [1, 2, 3, 4, 5] (replicate 6 MissingValue) =
            Inr [1, 2, MissingValue, 3, 4, 5]"
    by (simp add: scatter_def eval_list)
  have iota: "[0..<length [1, 2, 3, 4, 5 :: real]] = [0, 1, 2, 3, 4]"
    by (simp add: eval_list)
  have "inflate fld [2, 3] = Inr [1, 2, MissingValue, 3, 4, 5]"
    unfolding inflate_def assms iota ins idxs Let_def using sc
    by (simp add: product_def int32_def)
  then show ?thesis by (simp add: getRowsForField_def groupRows_def)
qed

lemma ragged_raw:
  assumes frames: "dataFrames rs = [frame]"
    and idx: "fieldIndexForNodeNamed frame ''T'' = Inr i"
    and dat: "data (dataFields frame ! i) = [1, 2, 3, 4, 5]"
    and cnt: "seqCounts (dataFields frame ! i) = [[2], [2, 3]]"
    and exp: "slice [2, 3] (exportDimIdxs (target (dataFields frame ! i))) = Inr ds"
  shows "getRawValues ex rs ''T'' [] info0 =
         Inr ([1, 2, MissingValue, 3, 4, 5], ds, dimPaths (target (dataFields frame ! i)),
              mergeTypeInfo info0 (typeInfo (target (dataFields frame ! i))))"
proof -
  let ?fld = "dataFields frame ! i"
  from fieldIndexForNodeNamed_Inr [OF idx] have at: "fieldAtIdx frame i = Inr ?fld" by simp
  have dl: "updateDimsList [[2], [2, 3]] [] = [2, 3]"
    by (simp add: updateDimsList_def eval_list)
  have wr: "writeRows 0 3 [[1, 2, MissingValue, 3, 4, 5]] (replicate 6 MissingValue) =
            Inr [1, 2, MissingValue, 3, 4, 5]"
    by (simp add: writeRows_def writeRow_def eval_list)
  have fill: "fillFrame i [2, 3] [2, 3] 0 3 [frame] 0 (replicate 6 MissingValue) =
              Inr [1, 2, MissingValue, 3, 4, 5]"
    using wr by (simp add: fillFrame_def at dat ragged_rows [OF dat cnt] size_t_of_int_def)
  show ?thesis
    using fill exp
    by (simp add: getRawValues_def frames idx resolveGroupBy_def at frameStep_no_groupby cnt dl
          reshapeDims_def promoteZeroDims_def Let_def size_t_of_int_def int_of_size_t_def
          int32_def eval_list)
qed

lemma makeDataObject_no_override:
  "makeDataObject ex fn gn ti [] dat dims dp =
     Inr \<lparr>kind = kind (objectByTypeInfo ex ti),
          objData = map (\<lambda>x. if isMissingLane (kind (objectByTypeInfo ex ti)) (10 * 10 ^ 10) x
                              then MissingCell else Value x) dat,
          objDims = dims, objFieldName = fn, objGroupByFieldName = gn, objDimPaths = dp\<rparr>"
  by (simp add: makeDataObject_def setData_def objectByTypeInfo_def emptyObject_def)

lemma isMissingLane_refl [simp]: "isMissingLane k t t"
  by (simp add: isMissingLane_def abs_ge_self)

lemma isMissingLane_sentinel [simp]: "isMissingLane k 100000000000 MissingValue"
  by (simp add: isMissingLane_def MissingValue_def)

lemma isMissingLane_small [simp]:
  "\<bar>x\<bar> < 100000000000 \<Longrightarrow> \<not> isMissingLane k 100000000000 x"
  by (auto simp: isMissingLane_def)

lemma get_no_groupby:
  assumes "dataFrames rs = frame # rest" and "fieldIndexForNodeNamed frame fn = Inr i"
    and "getRawValues ex rs fn [] (defaultTypeInfo ex) = Inr (dat, dims, dp, ti)"
  shows "get ex rs fn [] [] =
     Inr \<lparr>kind = kind (objectByTypeInfo ex ti),
          objData = map (\<lambda>x. if isMissingLane (kind (objectByTypeInfo ex ti)) (10 * 10 ^ 10) x
                              then MissingCell else Value x) dat,
          objDims = dims, objFieldName = fn, objGroupByFieldName = [], objDimPaths = dp\<rparr>"
  using assms fieldIndexForNodeNamed_Inr [OF assms(2)]
  by (simp add: get_def makeDataObject_no_override)

lemma slice_subset: "slice v idxs = Inr ds \<Longrightarrow> set ds \<subseteq> set v"
  unfolding slice_def
  by (induction idxs arbitrary: ds) (auto split: if_splits sum.splits)

lemma slice_all: "slice [a, b] [0, 1] = Inr [a, b]" "slice [a] [0] = Inr [a]"
  by (simp_all add: slice_def)

lemma ex1_idx: "fieldIndexForNodeNamed \<lparr>dataFields = [fieldT sc ed dat counts]\<rparr> ''T'' = Inr 0"
  by (simp add: fieldIndexForNodeNamed_def fieldT_def)

lemma ex1_field [simp]:
  "data (fieldT sc ed dat counts) = dat" "seqCounts (fieldT sc ed dat counts) = counts"
  "exportDimIdxs (target (fieldT sc ed dat counts)) = ed"
  by (simp_all add: fieldT_def)

section \<open>QuerySet: what \<open>add\<close> stores and which subsets are admitted\<close>

lemma fold_addQuery_restricted:
  assumes "S \<noteq> {}" and "restrictedInv S qs" and "\<forall>q\<in>set l. \<not> isAnySubset (subset q)"
  shows "restrictedInv S (fold addQuery l qs) \<and>
         presentSubsets (fold addQuery l qs) = S \<inter> (presentSubsets qs \<union> (\<lambda>q. SubsetComponent.name (subset q)) ` set l) \<and>
         addHasBeenCalled (fold addQuery l qs) = addHasBeenCalled qs"
  using assms(2,3)
proof (induction l arbitrary: qs)
  case Nil
  then show ?case by (auto simp: restrictedInv_def)
next
  case (Cons q l)
  let ?qs = "addQuery q qs"
  from Cons.prems assms(1) have step: "restrictedInv S ?qs"
    and pres: "presentSubsets ?qs = S \<inter> insert (SubsetComponent.name (subset q)) (presentSubsets qs)"
    and called: "addHasBeenCalled ?qs = addHasBeenCalled qs"
    by (auto simp: restrictedInv_def addQuery_def)
  from Cons.prems have "\<forall>q\<in>set l. \<not> isAnySubset (subset q)" by simp
  from Cons.IH [OF step this] pres called Cons.prems(1) show ?case
    by (auto simp: restrictedInv_def)
qed

lemma add_restricted:
  assumes "S \<noteq> {}" and "restrictedInv S qs" and "parse s = Inr l"
    and "\<forall>q\<in>set l. \<not> isAnySubset (subset q)"
  shows "restrictedInv S (snd (add parse nm s qs)) \<and>
         presentSubsets (snd (add parse nm s qs)) = S \<inter> (presentSubsets qs \<union> (\<lambda>q. SubsetComponent.name (subset q)) ` set l) \<and>
         queryMap (snd (add parse nm s qs)) \<noteq> []"
proof -
  let ?qs1 = "if \<not> addHasBeenCalled qs
                 then qs\<lparr>addHasBeenCalled := True, includesAllSubsets := False\<rparr>
                 else qs"
  have inv1: "restrictedInv S ?qs1" using assms(2) by (simp add: restrictedInv_def)
  have p1: "presentSubsets ?qs1 = presentSubsets qs" by simp
  note f = fold_addQuery_restricted [OF assms(1) inv1 assms(4)]
  have ne: "AList.update nm l al \<noteq> []" for al :: "(string \<times> Query list) list"
    by (cases al) simp_all
  have eq: "snd (add parse nm s qs) =
      (fold addQuery l ?qs1)\<lparr>queryMap := AList.update nm l (queryMap (fold addQuery l ?qs1))\<rparr>"
    using assms(3) by (simp add: add_def Let_def)
  show ?thesis unfolding eq using f p1 ne by (simp add: restrictedInv_def)
qed

lemma addAll_restricted:
  assumes "S \<noteq> {}" and "restrictedInv S qs"
    and "\<forall>(nm, s)\<in>set calls. \<exists>l. parse s = Inr l \<and> (\<forall>q\<in>set l. \<not> isAnySubset (subset q))"
  shows "restrictedInv S (addAll parse calls qs) \<and>
         presentSubsets (addAll parse calls qs) = S \<inter> (presentSubsets qs \<union> mentionedSubsets parse calls) \<and>
         (calls \<noteq> [] \<longrightarrow> queryMap (addAll parse calls qs) \<noteq> [])"
  using assms(2,3)
proof (induction calls arbitrary: qs rule: rev_induct)
  case Nil
  then show ?case by (auto simp: addAll_def mentionedSubsets_def restrictedInv_def)
next
  case (snoc c calls)
  obtain nm s where c: "c = (nm, s)" by (cases c)
  from snoc.prems(2) c obtain l where l: "parse s = Inr l" "\<forall>q\<in>set l. \<not> isAnySubset (subset q)"
    by auto
  from snoc.prems(2) have "\<forall>(nm, s)\<in>set calls. \<exists>l. parse s = Inr l \<and> (\<forall>q\<in>set l. \<not> isAnySubset (subset q))"
    by auto
  note ih = snoc.IH [OF snoc.prems(1) this]
  let ?q = "addAll parse calls qs"
  have unf: "addAll parse (calls @ [c]) qs = snd (add parse nm s ?q)"
    by (simp add: addAll_def c)
  have m: "mentionedSubsets parse (calls @ [c]) = mentionedSubsets parse calls \<union> (\<lambda>q. SubsetComponent.name (subset q)) ` set l"
    by (auto simp: mentionedSubsets_def c l)
  from ih have inv: "restrictedInv S ?q" by simp
  have a: "restrictedInv S (snd (add parse nm s ?q)) \<and>
         presentSubsets (snd (add parse nm s ?q)) = S \<inter> (presentSubsets ?q \<union> (\<lambda>q. SubsetComponent.name (subset q)) ` set l) \<and>
         queryMap (snd (add parse nm s ?q)) \<noteq> []"
    using assms(1) inv l by (rule add_restricted)
  show ?case unfolding unf m using a ih by auto
qed

text \<open>Before any call of \<open>add\<close> a restricted query set admits exactly its limit set.\<close>

lemma includesSubset_no_add:
  "set S \<noteq> {} \<Longrightarrow> includesSubset (QuerySet_subsets S) n \<longleftrightarrow> n \<in> set S"
  by (simp add: includesSubset_def QuerySet_subsets_def Let_def)

text \<open>
  On an unrestricted query set the flag after \<open>add\<close> is the wildcard flag of the last
  parsed query.
\<close>

lemma limitSubsets_addQuery [simp]: "limitSubsets (addQuery q qs) = limitSubsets qs"
  by (simp add: addQuery_def)

lemma limitSubsets_fold_addQuery [simp]: "limitSubsets (fold addQuery l qs) = limitSubsets qs"
  by (induction l arbitrary: qs) simp_all

lemma add_last_query_decides:
  assumes "limitSubsets qs = {}" and "parse s = Inr (l @ [q])"
  shows "includesAllSubsets (snd (add parse nm s qs)) = isAnySubset (subset q)"
  using assms by (simp add: add_def Let_def addQuery_def)

text \<open>
  C6.  The claim: \<open>add(name, queryStr)\<close> appends the parsed queries to the list already
  stored under \<open>name\<close>, so that after \<open>add(name, s1)\<close> and \<open>add(name, s2)\<close>
  \<open>queriesFor(name)\<close> holds the queries of \<open>s1\<close> followed by those of \<open>s2\<close>.
  Line 78 assigns instead: the list stored under the name is the list parsed by the last call.
  After \<open>add(name, s1)\<close> and \<open>add(name, s2)\<close>, with both strings parsing,
  \<open>queriesFor(name)\<close> is exactly the list parsed from \<open>s2\<close>, in order and with no
  deduplication.
\<close>

theorem add_replaces_queries:
  assumes "parse s1 = Inr l1" and "parse s2 = Inr l2"
  shows "queriesFor (snd (add parse nm s2 (snd (add parse nm s1 qs)))) nm = Inr l2"
  using assms(2) by (simp add: add_def queriesFor_def Let_def update_conv')

theorem add_replaces_queries_witness:
  "queriesFor
     (snd (add (parseTable [(''NC001/A'', [literalQuery ''NC001'' [''A'']]),
                            (''NC002/B'', [literalQuery ''NC002'' [''B'']])])
             ''x'' ''NC002/B''
        (snd (add (parseTable [(''NC001/A'', [literalQuery ''NC001'' [''A'']]),
                               (''NC002/B'', [literalQuery ''NC002'' [''B'']])])
                ''x'' ''NC001/A'' QuerySet_default))))
     ''x'' = Inr [literalQuery ''NC002'' [''B'']]"
  using add_replaces_queries
    [of "parseTable [(''NC001/A'', [literalQuery ''NC001'' [''A'']]),
                     (''NC002/B'', [literalQuery ''NC002'' [''B'']])]"
        "''NC001/A''" "[literalQuery ''NC001'' [''A'']]"
        "''NC002/B''" "[literalQuery ''NC002'' [''B'']]" "''x''" QuerySet_default]
  by (simp add: parseTable_def)

text \<open>
  Two calls under the name \<open>x\<close>, the first with a query of subset \<open>NC001\<close>, the second with
  one of subset \<open>NC002\<close>: the stored list is not the first query followed by the second.
\<close>

theorem add_appends_counterexample:
  "queriesFor
     (snd (add (parseTable [(''NC001/A'', [literalQuery ''NC001'' [''A'']]),
                            (''NC002/B'', [literalQuery ''NC002'' [''B'']])])
             ''x'' ''NC002/B''
        (snd (add (parseTable [(''NC001/A'', [literalQuery ''NC001'' [''A'']]),
                               (''NC002/B'', [literalQuery ''NC002'' [''B'']])])
                ''x'' ''NC001/A'' QuerySet_default))))
     ''x''
   \<noteq> Inr ([literalQuery ''NC001'' [''A'']] @ [literalQuery ''NC002'' [''B'']])"
  by (simp add: add_def queriesFor_def parseTable_def Let_def update_conv' literalQuery_def)

text \<open>
  C7.  The claim: on an unrestricted query set a wildcard query sets \<open>includes_all\<close>, a literal
  query only records its subset name, and so after any \<open>add\<close> whose string parses to at least
  one wildcard query every subset is included.  Line 50 assigns the wildcard flag of each query
  in turn to \<open>includesAllSubsets_\<close>, so a literal query after a wildcard one clears it again.
  For a string that parses to a wildcard query followed by a query of subset \<open>NC001\<close>, the
  subset \<open>NC002\<close> is not included after the call.
\<close>

theorem add_wildcard_then_literal_excludes:
  "includesSubset
     (snd (add (parseTable [(''[*/A, NC001/A]'',
                              [wildcardQuery [''A''], literalQuery ''NC001'' [''A'']])])
             ''x'' ''[*/A, NC001/A]'' QuerySet_default))
     ''NC002'' = False"
  by (simp add: add_def includesSubset_def parseTable_def Let_def QuerySet_default_def
        addQuery_def literalQuery_def wildcardQuery_def)

text \<open>
  C8.  The claim: for a query set restricted to a non-empty set \<open>S\<close>, after any sequence of
  calls of \<open>add\<close> whose parsed queries all have literal subset selectors,
  \<open>includesSubset(n')\<close> holds exactly when \<open>n'\<close> is in \<open>S\<close> and among the subset names of
  the queries added so far.  With no call at all \<open>queryMap_\<close> is empty and line 88 answers
  from \<open>S\<close> alone, so the statement holds after any sequence of at least one call.
\<close>

theorem includesSubset_restricted:
  assumes "set S \<noteq> {}" and "calls \<noteq> []"
    and "\<forall>(nm, s)\<in>set calls.
           \<exists>l. parse s = Inr l \<and> (\<forall>q\<in>set l. \<not> isAnySubset (subset q))"
  shows "includesSubset (addAll parse calls (QuerySet_subsets S)) n \<longleftrightarrow>
         n \<in> set S \<inter> mentionedSubsets parse calls"
proof -
  have inv: "restrictedInv (set S) (QuerySet_subsets S)"
    using assms(1) by (simp add: restrictedInv_def QuerySet_subsets_def Let_def)
  have p0: "presentSubsets (QuerySet_subsets S) = {}"
    by (simp add: QuerySet_subsets_def Let_def)
  from addAll_restricted [OF assms(1) inv assms(3)] assms(2) p0
  show ?thesis by (auto simp: includesSubset_def restrictedInv_def)
qed

theorem includesSubset_restricted_witness:
  "includesSubset
     (addAll (parseTable [(''NC001/A'', [literalQuery ''NC001'' [''A'']])])
        [(''x'', ''NC001/A'')] (QuerySet_subsets [''NC001'', ''NC002''])) ''NC001''
   \<and> \<not> includesSubset
     (addAll (parseTable [(''NC001/A'', [literalQuery ''NC001'' [''A'']])])
        [(''x'', ''NC001/A'')] (QuerySet_subsets [''NC001'', ''NC002''])) ''NC002''"
proof -
  have lit: "\<forall>(nm, s)\<in>set [(''x'', ''NC001/A'')].
      \<exists>l. parseTable [(''NC001/A'', [literalQuery ''NC001'' [''A'']])] s = Inr l \<and>
          (\<forall>q\<in>set l. \<not> isAnySubset (subset q))"
    by (simp add: parseTable_def literalQuery_def)
  have m: "mentionedSubsets (parseTable [(''NC001/A'', [literalQuery ''NC001'' [''A'']])])
             [(''x'', ''NC001/A'')] = {''NC001''}"
    by (simp add: mentionedSubsets_def parseTable_def literalQuery_def)
  have ne: "set [''NC001'', ''NC002''] \<noteq> {}" "[(''x'', ''NC001/A'')] \<noteq> []" by simp_all
  show ?thesis
    using includesSubset_restricted [OF ne lit, of "''NC001''"]
      includesSubset_restricted [OF ne lit, of "''NC002''"]
    by (simp add: m)
qed

text \<open>
  A query set restricted to \<open>NC001\<close> and no call of \<open>add\<close>: \<open>NC001\<close> is included although
  no query mentions it.
\<close>

theorem includesSubset_no_add_counterexample:
  "includesSubset (addAll (parseTable []) [] (QuerySet_subsets [''NC001''])) ''NC001''
   \<and> ''NC001'' \<notin> set [''NC001''] \<inter> mentionedSubsets (parseTable []) []"
  by (simp add: includesSubset_def addAll_def QuerySet_subsets_def Let_def mentionedSubsets_def)

section \<open>ResultSet: inflation, shape and failures\<close>

text \<open>
  C2.  The claim: for every field whose sequence counts are regular (every count of level
  \<open>r\<close> equals \<open>dims[r]\<close>, so every insert is zero) and with no group-by
  (\<open>groupbyIdx = 0\<close>), \<open>getRowsForField\<close> emits exactly one row, the flat data padded with
  the missing sentinel up to the product of \<open>dims\<close>.  Two things stand against it as worded.
  A field with regular counts can hold more data than that product, and then line 455 writes
  outside \<open>output\<close>; and the length of \<open>output\<close> is \<open>product(dims)\<close> as line 452 computes
  it, in a 32-bit \<open>int\<close>, which is the product of \<open>dims\<close> only when that fits.  For every
  field with regular counts, no group-by and data no longer than \<open>product(dims)\<close>, the one
  row emitted is the flat data padded with the missing sentinel up to length
  \<open>product(dims)\<close>.
\<close>

theorem getRowsForField_regular:
  assumes reg: "\<forall>r < min (length dims) (length (seqCounts f)).
                  \<forall>c \<in> set (seqCounts f ! r). c = dims ! r"
    and fit: "int (length (data f)) \<le> product dims"
  shows "getRowsForField f dims 0 =
           Inr [data f @ replicate (nat (product dims) - length (data f)) MissingValue] \<and>
         (- (2 ^ 31) \<le> prod_list dims \<and> prod_list dims < 2 ^ 31 \<longrightarrow>
            product dims = prod_list dims)"
  using regular_rows [OF reg fit] by (simp add: product_prod_list int32_small)

theorem getRowsForField_regular_witness:
  "getRowsForField (fieldT 1 [0, 1] [1, 2, 3] [[2], [2, 2]]) [2, 2] 0 =
     Inr [[1, 2, 3, MissingValue]]"
proof -
  have reg: "\<forall>r < min (length [2, 2 :: int])
                        (length (seqCounts (fieldT 1 [0, 1] [1, 2, 3] [[2], [2, 2]]))).
               \<forall>c \<in> set (seqCounts (fieldT 1 [0, 1] [1, 2, 3] [[2], [2, 2]]) ! r).
                 c = [2, 2] ! r"
    by (simp add: less_Suc_eq numeral_2_eq_2)
  have fit: "int (length (data (fieldT 1 [0, 1] [1, 2, 3] [[2], [2, 2]]))) \<le> product [2, 2]"
    by (simp add: product_def int32_def)
  show ?thesis
    using getRowsForField_regular [OF reg fit] by (simp add: product_def int32_def)
qed

text \<open>
  Regular counts \<open>[[2],[2,2]]\<close> for \<open>dims = [2,2]\<close> with five data: the fifth is written
  outside the four cells of \<open>output\<close>.  Regular counts for \<open>dims = [65536, 65537]\<close>, whose
  product \<open>4295032832\<close> is \<open>65536\<close> in 32 bits: the row has \<open>65536\<close> cells.
\<close>

theorem getRowsForField_regular_counterexample:
  "getRowsForField (fieldT 1 [0, 1] [1, 2, 3, 4, 5] [[2], [2, 2]]) [2, 2] 0 = Inl OutOfRange \<and>
   getRowsForField (fieldT 1 [0, 1] [1] [[65536], [65537]]) [65536, 65537] 0 =
     Inr [1 # replicate 65535 MissingValue] \<and>
   prod_list [65536, 65537 :: int] = 4295032832"
proof -
  have reg1: "\<forall>r < min (length [2, 2 :: int])
                        (length (seqCounts (fieldT 1 [0, 1] [1, 2, 3, 4, 5] [[2], [2, 2]]))).
               \<forall>c \<in> set (seqCounts (fieldT 1 [0, 1] [1, 2, 3, 4, 5] [[2], [2, 2]]) ! r).
                 c = [2, 2] ! r"
    by (simp add: less_Suc_eq numeral_2_eq_2)
  have long: "getRowsForField (fieldT 1 [0, 1] [1, 2, 3, 4, 5] [[2], [2, 2]]) [2, 2] 0 =
              Inl OutOfRange"
    by (rule getRowsForField_regular_too_long [OF reg1]) (simp_all add: product_def int32_def)
  have reg2: "\<forall>r < min (length [65536, 65537 :: int])
                        (length (seqCounts (fieldT 1 [0, 1] [1] [[65536], [65537]]))).
               \<forall>c \<in> set (seqCounts (fieldT 1 [0, 1] [1] [[65536], [65537]]) ! r).
                 c = [65536, 65537] ! r"
    by (simp add: less_Suc_eq numeral_2_eq_2)
  have fit2: "int (length (data (fieldT 1 [0, 1] [1] [[65536], [65537]]))) \<le>
              product [65536, 65537]"
    by (simp add: product_def int32_def)
  have wrap: "getRowsForField (fieldT 1 [0, 1] [1] [[65536], [65537]]) [65536, 65537] 0 =
              Inr [1 # replicate 65535 MissingValue]"
    using regular_rows [OF reg2 fit2] by (simp add: product_def int32_def)
  from long wrap show ?thesis by simp
qed

text \<open>
  C1.  The claim: for one frame whose field \<open>T\<close> has the data \<open>[1,2,3,4,5]\<close> and the
  sequence counts \<open>[[2],[2,3]]\<close>, \<open>get("T")\<close> without group-by returns the dense buffer
  \<open>[1, 2, missing, 3, 4, 5]\<close> with dims \<open>[1,2,3]\<close>.  The buffer is as claimed.  The dims
  are not: the solver makes one dimension per level of the sequence counts, here \<open>[2,3]\<close>,
  multiplies the first by the number of frames and projects by the export dimensions of the
  target, so every entry of the result is 2 or 3, and the dims are \<open>[2,3]\<close> when both axes
  are exported.
\<close>

theorem get_ragged_2d:
  assumes frames: "dataFrames rs = [frame]"
    and idx: "fieldIndexForNodeNamed frame ''T'' = Inr i"
    and dat: "data (dataFields frame ! i) = [1, 2, 3, 4, 5]"
    and cnt: "seqCounts (dataFields frame ! i) = [[2], [2, 3]]"
    and exp: "slice [2, 3] (exportDimIdxs (target (dataFields frame ! i))) = Inr ds"
  shows "\<exists>obj. get ex rs ''T'' [] [] = Inr obj \<and>
           objData obj = [Value 1, Value 2, MissingCell, Value 3, Value 4, Value 5] \<and>
           objDims obj = ds \<and> ds \<noteq> [1, 2, 3] \<and>
           (exportDimIdxs (target (dataFields frame ! i)) = [0, 1] \<longrightarrow> ds = [2, 3])"
proof -
  note raw = ragged_raw [OF frames idx dat cnt exp, of ex "defaultTypeInfo ex"]
  note g = get_no_groupby [OF frames idx raw]
  from slice_subset [OF exp] have "ds \<noteq> [1, 2, 3]" by auto
  moreover have "exportDimIdxs (target (dataFields frame ! i)) = [0, 1] \<longrightarrow> ds = [2, 3]"
    using exp by (auto simp: slice_all)
  ultimately show ?thesis using g by (simp add: MissingValue_def)
qed

theorem get_ragged_2d_witness:
  "\<exists>obj. get exampleExternals (framesOf [fieldT 1 [0, 1] [1, 2, 3, 4, 5] [[2], [2, 3]]]) ''T'' [] [] = Inr obj \<and>
         objData obj = [Value 1, Value 2, MissingCell, Value 3, Value 4, Value 5] \<and>
         objDims obj = [2, 3]"
  using get_ragged_2d [of "framesOf [fieldT 1 [0, 1] [1, 2, 3, 4, 5] [[2], [2, 3]]]"
      "\<lparr>dataFields = [fieldT 1 [0, 1] [1, 2, 3, 4, 5] [[2], [2, 3]]]\<rparr>" 0 "[2, 3]" exampleExternals]
  by (simp add: framesOf_def ex1_idx slice_all)

text \<open>
  One frame with that field, both axes exported: the dims of the returned object are
  \<open>[2,3]\<close>.
\<close>

theorem get_ragged_2d_dims_counterexample:
  "map_sum id objDims
     (get exampleExternals (framesOf [fieldT 1 [0, 1] [1, 2, 3, 4, 5] [[2], [2, 3]]]) ''T'' [] [])
   = Inr [2, 3] \<and> [2, 3] \<noteq> [1, 2, 3 :: int]"
proof -
  have raw: "getRawValues exampleExternals (framesOf [fieldT 1 [0, 1] [1, 2, 3, 4, 5] [[2], [2, 3]]])
          ''T'' [] (defaultTypeInfo exampleExternals) =
        Inr ([1, 2, MissingValue, 3, 4, 5], [2, 3],
             dimPaths (target (fieldT 1 [0, 1] [1, 2, 3, 4, 5] [[2], [2, 3]])),
             mergeTypeInfo (defaultTypeInfo exampleExternals)
               (typeInfo (target (fieldT 1 [0, 1] [1, 2, 3, 4, 5] [[2], [2, 3]]))))"
    using ragged_raw [of "framesOf [fieldT 1 [0, 1] [1, 2, 3, 4, 5] [[2], [2, 3]]]"
      "\<lparr>dataFields = [fieldT 1 [0, 1] [1, 2, 3, 4, 5] [[2], [2, 3]]]\<rparr>" 0 "[2, 3]"
      exampleExternals "defaultTypeInfo exampleExternals"]
    by (simp add: framesOf_def ex1_idx slice_all)
  have "get exampleExternals (framesOf [fieldT 1 [0, 1] [1, 2, 3, 4, 5] [[2], [2, 3]]]) ''T'' [] [] =
     Inr \<lparr>kind = kind (objectByTypeInfo exampleExternals (mergeTypeInfo (defaultTypeInfo exampleExternals)
               (typeInfo (target (fieldT 1 [0, 1] [1, 2, 3, 4, 5] [[2], [2, 3]]))))),
          objData = map (\<lambda>x. if isMissingLane
                      (kind (objectByTypeInfo exampleExternals
                         (mergeTypeInfo (defaultTypeInfo exampleExternals)
                            (typeInfo (target (fieldT 1 [0, 1] [1, 2, 3, 4, 5] [[2], [2, 3]]))))))
                      (10 * 10 ^ 10) x
                    then MissingCell else Value x) [1, 2, MissingValue, 3, 4, 5],
          objDims = [2, 3], objFieldName = ''T'', objGroupByFieldName = [],
          objDimPaths = dimPaths (target (fieldT 1 [0, 1] [1, 2, 3, 4, 5] [[2], [2, 3]]))\<rparr>"
    by (rule get_no_groupby [OF _ ex1_idx raw]) (simp add: framesOf_def)
  then show ?thesis by simp
qed

section \<open>Facts about the solver on one and two frames\<close>

lemma ebind_eq_Inr: "ebind m f = Inr y \<longleftrightarrow> (\<exists>x. m = Inr x \<and> f x = Inr y)"
  by (cases m) simp_all

lemma scalar_rows:
  assumes "data fld = [x]" and "seqCounts fld = [[1]]"
  shows "getRowsForField fld [1] 0 = Inr [[x]]"
proof -
  have "inflate fld [1] = Inr [x]"
    by (simp add: inflate_def assms computeInserts_def inflateIdxs_def insertStep_def
          scatter_def product_def int32_def scalar_minus_vec_def vec_times_scalar_def
          size_t_of_int_def)
  then show ?thesis by (simp add: getRowsForField_def groupRows_def)
qed

lemma scalar_raw:
  assumes frames: "dataFrames rs = [frame]"
    and idx: "fieldIndexForNodeNamed frame fn = Inr i"
    and dat: "data (dataFields frame ! i) = [x]"
    and cnt: "seqCounts (dataFields frame ! i) = [[1]]"
    and exp: "exportDimIdxs (target (dataFields frame ! i)) = [0]"
  shows "getRawValues ex rs fn [] info0 =
         Inr ([x], [1], dimPaths (target (dataFields frame ! i)),
              mergeTypeInfo info0 (typeInfo (target (dataFields frame ! i))))"
proof -
  let ?fld = "dataFields frame ! i"
  from fieldIndexForNodeNamed_Inr [OF idx] have at: "fieldAtIdx frame i = Inr ?fld" by simp
  have dl: "updateDimsList [[1]] [] = [1]"
    by (simp add: updateDimsList_def)
  have fill: "fillFrame i [1] [1] 0 1 [frame] 0 [MissingValue] = Inr [x]"
    by (simp add: fillFrame_def at dat scalar_rows [OF dat cnt] size_t_of_int_def
          writeRows_def writeRow_def)
  show ?thesis
    using fill
    by (simp add: getRawValues_def frames idx resolveGroupBy_def at frameStep_no_groupby cnt dl
          reshapeDims_def promoteZeroDims_def Let_def size_t_of_int_def int_of_size_t_def
          int32_def exp slice_all)
qed

lemma empty_counts_raw:
  assumes frames: "dataFrames rs = [frame]"
    and idx: "fieldIndexForNodeNamed frame fn = Inr i"
    and cnt: "seqCounts (dataFields frame ! i) = []"
  shows "getRawValues ex rs fn [] info0 = Inl OutOfRange"
proof -
  let ?fld = "dataFields frame ! i"
  from fieldIndexForNodeNamed_Inr [OF idx] have at: "fieldAtIdx frame i = Inr ?fld" by simp
  have dl: "updateDimsList [] [] = []"
    by (simp add: updateDimsList_def)
  show ?thesis
    by (simp add: getRawValues_def frames idx resolveGroupBy_def at frameStep_no_groupby cnt dl
          reshapeDims_def promoteZeroDims_def Let_def)
qed

lemma get_raw_failure:
  assumes "dataFrames rs = frame # rest" and "fieldIndexForNodeNamed frame fn = Inr i"
    and "getRawValues ex rs fn [] (defaultTypeInfo ex) = Inl e"
  shows "get ex rs fn [] ov = Inl e"
  using assms fieldIndexForNodeNamed_Inr [OF assms(2)] by (simp add: get_def)

lemma makeDataObject_objData:
  "makeDataObject ex fn gn ti ov dat dims dp = Inr obj \<Longrightarrow>
   objData obj =
     map (\<lambda>x. if isMissingLane (kind obj) (10 * 10 ^ 10) x then MissingCell else Value x) dat"
  by (auto simp: makeDataObject_def setData_def ebind_eq_Inr split: if_splits)

lemma getRawValues_Inr_names:
  assumes "getRawValues ex rs fn gn info0 = Inr r"
  shows "\<exists>frame0 rest. dataFrames rs = frame0 # rest \<and> hasFieldNamed frame0 fn \<and>
           (gn \<noteq> [] \<longrightarrow> hasFieldNamed frame0 gn)"
proof (cases "dataFrames rs")
  case Nil
  with assms show ?thesis by (simp add: getRawValues_def)
next
  case (Cons frame0 rest)
  show ?thesis
  proof (cases "fieldIndexForNodeNamed frame0 fn")
    case (Inl e)
    with assms Cons show ?thesis by (simp add: getRawValues_def)
  next
    case i: (Inr i)
    show ?thesis
    proof (cases "resolveGroupBy ex frame0 i gn")
      case (Inl e)
      with assms Cons i show ?thesis by (simp add: getRawValues_def)
    next
      case (Inr j)
      have "gn \<noteq> [] \<longrightarrow> (\<exists>k. fieldIndexForNodeNamed frame0 gn = Inr k)"
      proof (cases "fieldIndexForNodeNamed frame0 gn")
        case e: (Inl e)
        from Inr show ?thesis by (simp add: resolveGroupBy_def e split: if_splits)
      next
        case (Inr k)
        then show ?thesis by simp
      qed
      with i Cons show ?thesis by (auto simp: hasFieldNamed_index)
    qed
  qed
qed

lemma objectByType_numeric:
  "ov \<in> set numericOverrides \<Longrightarrow> ov \<noteq> ''string'' \<and> ov \<noteq> [] \<and> (\<exists>obj. objectByType ov = Inr obj)"
  unfolding numericOverrides_def by (auto simp: objectByType_def)

lemma makeDataObject_crossing:
  assumes "(ov = ''string'' \<and> \<not> isString ex ti) \<or> (ov \<in> set numericOverrides \<and> isString ex ti)"
  shows "makeDataObject ex fn gn ti ov dat dims dp = Inl BadConversion"
  using assms
proof
  assume "ov = ''string'' \<and> \<not> isString ex ti"
  then show ?thesis by (simp add: makeDataObject_def objectByType_def)
next
  assume a: "ov \<in> set numericOverrides \<and> isString ex ti"
  with objectByType_numeric [of ov] obtain obj where
    "ov \<noteq> ''string''" "ov \<noteq> []" "objectByType ov = Inr obj" by blast
  with a show ?thesis by (simp add: makeDataObject_def)
qed

lemma two_frames_raw:
  assumes frames: "dataFrames rs = [frame1, frame2]"
    and idx: "fieldIndexForNodeNamed frame1 fn = Inr i"
    and at2: "i < length (dataFields frame2)"
    and dat: "data (dataFields frame1 ! i) = [x]" "data (dataFields frame2 ! i) = [y]"
    and cnt: "seqCounts (dataFields frame1 ! i) = [[1]]" "seqCounts (dataFields frame2 ! i) = [[1]]"
    and pth: "length (dimPaths (target (dataFields frame2 ! i))) \<le>
              length (dimPaths (target (dataFields frame1 ! i)))"
    and exp: "exportDimIdxs (target (dataFields frame1 ! i)) = [0]"
  shows "getRawValues ex rs fn [] info0 =
         Inr ([x, y], [2], dimPaths (target (dataFields frame1 ! i)),
              mergeTypeInfo (mergeTypeInfo info0 (typeInfo (target (dataFields frame1 ! i))))
                (typeInfo (target (dataFields frame2 ! i))))"
proof -
  from fieldIndexForNodeNamed_Inr [OF idx]
  have at: "fieldAtIdx frame1 i = Inr (dataFields frame1 ! i)" by simp
  from at2 have at': "fieldAtIdx frame2 i = Inr (dataFields frame2 ! i)"
    by (simp add: fieldAtIdx_def)
  have dl: "updateDimsList [[1]] [] = [1]" "updateDimsList [[1]] [1] = [1]"
    by (simp_all add: updateDimsList_def)
  have fill1: "fillFrame i [1] [1] 0 1 [frame1, frame2] 0 [MissingValue, MissingValue] =
               Inr [x, MissingValue]"
    by (simp add: fillFrame_def at dat scalar_rows [OF dat(1) cnt(1)] size_t_of_int_def
          writeRows_def writeRow_def)
  have fill2: "fillFrame i [1] [1] 0 1 [frame1, frame2] 1 [x, MissingValue] = Inr [x, y]"
    by (simp add: fillFrame_def at' dat scalar_rows [OF dat(2) cnt(2)] size_t_of_int_def
          writeRows_def writeRow_def)
  show ?thesis
    using fill1 fill2 pth
    by (simp add: getRawValues_def frames idx resolveGroupBy_def at at' frameStep_no_groupby
          cnt dl reshapeDims_def promoteZeroDims_def Let_def size_t_of_int_def
          int_of_size_t_def int32_def exp slice_all eval_list)
qed

section \<open>ResultSet: single values, thresholds, merged types and failures\<close>

text \<open>
  C3.  The claim: for one frame whose field \<open>T\<close> has the data \<open>[273.15]\<close> and no sequence
  counts at all, \<open>get("T")\<close> succeeds with dims \<open>[1]\<close> and buffer \<open>[273.15]\<close>.  The solver
  makes one dimension per level of the sequence counts, so with none \<open>dims\<close> stays empty and
  line 356 reads \<open>dims[0]\<close> outside it.  With the single count \<open>[[1]]\<close> (one level holding
  one value) and the one axis exported, \<open>get("T")\<close> succeeds with dims \<open>[1]\<close> and buffer
  \<open>[273.15]\<close>; with empty sequence counts it does not return an object.
\<close>

theorem get_scalar:
  assumes frames: "dataFrames rs = [frame]"
    and idx: "fieldIndexForNodeNamed frame ''T'' = Inr i"
    and dat: "data (dataFields frame ! i) = [273.15]"
    and exp: "exportDimIdxs (target (dataFields frame ! i)) = [0]"
  shows "(seqCounts (dataFields frame ! i) = [[1]] \<longrightarrow>
            (\<exists>obj. get ex rs ''T'' [] [] = Inr obj \<and> objData obj = [Value 273.15] \<and>
                   objDims obj = [1])) \<and>
         (seqCounts (dataFields frame ! i) = [] \<longrightarrow> get ex rs ''T'' [] [] = Inl OutOfRange)"
proof (intro conjI impI)
  assume cnt: "seqCounts (dataFields frame ! i) = [[1]]"
  note raw = scalar_raw [OF frames idx dat cnt exp, of ex "defaultTypeInfo ex"]
  from get_no_groupby [OF frames idx raw]
  show "\<exists>obj. get ex rs ''T'' [] [] = Inr obj \<and> objData obj = [Value 273.15] \<and> objDims obj = [1]"
    by simp
next
  assume cnt: "seqCounts (dataFields frame ! i) = []"
  note raw = empty_counts_raw [OF frames idx cnt, of ex "defaultTypeInfo ex"]
  from get_raw_failure [OF frames idx raw] show "get ex rs ''T'' [] [] = Inl OutOfRange" .
qed

theorem get_scalar_witness:
  "(\<exists>obj. get exampleExternals (framesOf [fieldT 1 [0] [273.15] [[1]]]) ''T'' [] [] = Inr obj \<and>
          objData obj = [Value 273.15] \<and> objDims obj = [1]) \<and>
   get exampleExternals (framesOf [fieldT 1 [0] [273.15] []]) ''T'' [] [] = Inl OutOfRange"
  using get_scalar [of "framesOf [fieldT 1 [0] [273.15] [[1]]]"
          "\<lparr>dataFields = [fieldT 1 [0] [273.15] [[1]]]\<rparr>" 0 exampleExternals]
        get_scalar [of "framesOf [fieldT 1 [0] [273.15] []]"
          "\<lparr>dataFields = [fieldT 1 [0] [273.15] []]\<rparr>" 0 exampleExternals]
  by (simp add: framesOf_def ex1_idx)

text \<open>
  One frame, the field \<open>T\<close> with data \<open>[273.15]\<close> and empty sequence counts: \<open>get\<close> ends in
  the read outside \<open>dims\<close>.
\<close>

theorem get_scalar_empty_counts_counterexample:
  "get exampleExternals (framesOf [fieldT 1 [0] [273.15] []]) ''T'' [] [] = Inl OutOfRange"
proof -
  have raw: "getRawValues exampleExternals (framesOf [fieldT 1 [0] [273.15] []]) ''T'' []
          (defaultTypeInfo exampleExternals) = Inl OutOfRange"
    by (rule empty_counts_raw [OF _ ex1_idx]) (simp_all add: framesOf_def)
  show ?thesis
    by (rule get_raw_failure [OF _ ex1_idx raw]) (simp add: framesOf_def)
qed

text \<open>
  C4.  The claim: \<open>makeDataObject\<close> fills the container with a missing-value threshold of
  exactly \<open>1e10\<close>, every cell of the dense buffer being turned into the container's missing
  marker exactly when its value is at or above \<open>1e10\<close> (values of magnitude \<open>1e10\<close> or more
  are missing on output).  Line 531 hands \<open>10e10\<close>, that is \<open>1e11\<close>, to \<open>setData\<close>, and
  the threshold is for numeric containers only.  With the container as described above, a cell
  of a numeric container becomes the missing marker exactly when its magnitude is at or above
  \<open>1e11\<close>; the threshold is not applied to the lanes of a string container, where every
  lane other than the sentinel itself is kept.
\<close>

theorem makeDataObject_threshold:
  assumes "makeDataObject ex fn gn ti ov dat dims dp = Inr obj"
  shows "length (objData obj) = length dat \<and>
         (kind obj \<noteq> String \<longrightarrow>
            (\<forall>i < length dat. (objData obj ! i = MissingCell) = (\<bar>dat ! i\<bar> \<ge> 10 ^ 11))) \<and>
         (kind obj = String \<longrightarrow>
            (\<forall>i < length dat. dat ! i \<noteq> 10 ^ 11 \<longrightarrow> objData obj ! i = Value (dat ! i)))"
  using makeDataObject_objData [OF assms] by (simp add: isMissingLane_def)

theorem makeDataObject_threshold_witness:
  "makeDataObject exampleExternals ''T'' [] (typeInfo (target (fieldT 1 [0] [] []))) []
     [5 * 10 ^ 10, 10 ^ 11, - (2 * 10 ^ 11)] [3] [] =
   Inr \<lparr>kind = Float32, objData = [Value (5 * 10 ^ 10), MissingCell, MissingCell],
        objDims = [3], objFieldName = ''T'', objGroupByFieldName = [], objDimPaths = []\<rparr> \<and>
   ([Value (5 * 10 ^ 10), MissingCell, MissingCell] ! 0 = MissingCell) =
     (\<bar>5 * 10 ^ 10 :: real\<bar> \<ge> 10 ^ 11) \<and>
   ([Value (5 * 10 ^ 10), MissingCell, MissingCell] ! 1 = MissingCell) =
     (\<bar>10 ^ 11 :: real\<bar> \<ge> 10 ^ 11) \<and>
   ([Value (5 * 10 ^ 10), MissingCell, MissingCell] ! 2 = MissingCell) =
     (\<bar>- (2 * 10 ^ 11) :: real\<bar> \<ge> 10 ^ 11) \<and>
   makeDataObject exampleExternals ''T'' []
     \<lparr>reference = 0, bits = 64, scale = 0, TypeInfo.unit = ''CCITT IA5''\<rparr> []
     [2 * 10 ^ 11] [1] [] =
   Inr \<lparr>kind = String, objData = [Value (2 * 10 ^ 11)],
        objDims = [1], objFieldName = ''T'', objGroupByFieldName = [], objDimPaths = []\<rparr> \<and>
   [Value (2 * 10 ^ 11)] ! 0 = Value (2 * 10 ^ 11)"
proof -
  have k: "kind (objectByTypeInfo exampleExternals (typeInfo (target (fieldT 1 [0] [] [])))) =
           Float32"
    by (simp add: objectByTypeInfo_def emptyObject_def exampleExternals_def fieldT_def)
  have m: "makeDataObject exampleExternals ''T'' [] (typeInfo (target (fieldT 1 [0] [] []))) []
             [5 * 10 ^ 10, 10 ^ 11, - (2 * 10 ^ 11)] [3] [] =
           Inr \<lparr>kind = Float32, objData = [Value (5 * 10 ^ 10), MissingCell, MissingCell],
                objDims = [3], objFieldName = ''T'', objGroupByFieldName = [],
                objDimPaths = []\<rparr>"
    by (simp add: makeDataObject_no_override k isMissingLane_def)
  have k': "kind (objectByTypeInfo exampleExternals
                    \<lparr>reference = 0, bits = 64, scale = 0, TypeInfo.unit = ''CCITT IA5''\<rparr>) =
            String"
    by (simp add: objectByTypeInfo_def emptyObject_def exampleExternals_def)
  have m': "makeDataObject exampleExternals ''T'' []
              \<lparr>reference = 0, bits = 64, scale = 0, TypeInfo.unit = ''CCITT IA5''\<rparr> []
              [2 * 10 ^ 11] [1] [] =
            Inr \<lparr>kind = String, objData = [Value (2 * 10 ^ 11)],
                 objDims = [1], objFieldName = ''T'', objGroupByFieldName = [],
                 objDimPaths = []\<rparr>"
    by (simp add: makeDataObject_no_override k' isMissingLane_def)
  from makeDataObject_threshold [OF m] makeDataObject_threshold [OF m'] m m' show ?thesis
    by (simp add: All_less_Suc numeral_3_eq_3)
qed

text \<open>
  In a numeric container a cell of value \<open>5e10\<close> is at or above \<open>1e10\<close> and stays a value;
  in a string container a lane of value \<open>2e11\<close> stays a value as well.
\<close>

theorem makeDataObject_threshold_counterexample:
  "map_sum id objData
     (makeDataObject exampleExternals ''T'' [] (typeInfo (target (fieldT 1 [0] [] []))) []
        [5 * 10 ^ 10] [1] [])
   = Inr [Value (5 * 10 ^ 10)] \<and> (5 * 10 ^ 10 :: real) \<ge> 10 ^ 10 \<and>
   map_sum id objData
     (makeDataObject exampleExternals ''T'' []
        \<lparr>reference = 0, bits = 64, scale = 0, TypeInfo.unit = ''CCITT IA5''\<rparr> []
        [2 * 10 ^ 11] [1] [])
   = Inr [Value (2 * 10 ^ 11)] \<and> (2 * 10 ^ 11 :: real) \<ge> 10 ^ 10"
proof -
  have k1: "kind (objectByTypeInfo exampleExternals (typeInfo (target (fieldT 1 [0] [] [])))) =
            Float32"
    by (simp add: objectByTypeInfo_def emptyObject_def exampleExternals_def fieldT_def)
  have k2: "kind (objectByTypeInfo exampleExternals
                    \<lparr>reference = 0, bits = 64, scale = 0, TypeInfo.unit = ''CCITT IA5''\<rparr>) =
            String"
    by (simp add: objectByTypeInfo_def emptyObject_def exampleExternals_def)
  show ?thesis
    by (simp add: makeDataObject_no_override k1 k2 isMissingLane_def)
qed

text \<open>
  C5.  The claim: the scale accumulated over the frames is the one of larger magnitude, with
  its sign, and its magnitude does not depend on the order of the frames.  Line 254 compares
  the magnitude of the frame's scale with the accumulated scale itself, not with its
  magnitude, so once the accumulated scale is negative every later scale replaces it.  Two
  frames whose field \<open>T\<close> has the scales \<open>-5\<close> and \<open>1\<close> give the accumulated scale \<open>1\<close> in
  this order and \<open>-5\<close> in the other.
\<close>

theorem scale_merge_depends_on_frame_order:
  "map_sum id (\<lambda>r. scale (snd (snd (snd r))))
     (getRawValues exampleExternals (framesOf [fieldT (- 5) [0] [1] [[1]], fieldT 1 [0] [2] [[1]]])
        ''T'' [] (defaultTypeInfo exampleExternals)) = Inr 1 \<and>
   map_sum id (\<lambda>r. scale (snd (snd (snd r))))
     (getRawValues exampleExternals (framesOf [fieldT 1 [0] [2] [[1]], fieldT (- 5) [0] [1] [[1]]])
        ''T'' [] (defaultTypeInfo exampleExternals)) = Inr (- 5)"
proof -
  have a: "getRawValues exampleExternals (framesOf [fieldT (- 5) [0] [1] [[1]], fieldT 1 [0] [2] [[1]]])
        ''T'' [] (defaultTypeInfo exampleExternals) =
      Inr ([1, 2], [2], dimPaths (target (fieldT (- 5) [0] [1] [[1]])),
           mergeTypeInfo (mergeTypeInfo (defaultTypeInfo exampleExternals)
              (typeInfo (target (fieldT (- 5) [0] [1] [[1]]))))
              (typeInfo (target (fieldT 1 [0] [2] [[1]]))))"
    using two_frames_raw [where i = 0 and fn = "''T''" and x = 1 and y = 2
          and rs = "framesOf [fieldT (- 5) [0] [1] [[1]], fieldT 1 [0] [2] [[1]]]"
          and ?frame1.0 = "\<lparr>dataFields = [fieldT (- 5) [0] [1] [[1]]]\<rparr>"
          and ?frame2.0 = "\<lparr>dataFields = [fieldT 1 [0] [2] [[1]]]\<rparr>"
          and ex = exampleExternals and ?info0.0 = "defaultTypeInfo exampleExternals"]
    by (simp add: framesOf_def ex1_idx) (simp add: fieldT_def)
  have b: "getRawValues exampleExternals (framesOf [fieldT 1 [0] [2] [[1]], fieldT (- 5) [0] [1] [[1]]])
        ''T'' [] (defaultTypeInfo exampleExternals) =
      Inr ([2, 1], [2], dimPaths (target (fieldT 1 [0] [2] [[1]])),
           mergeTypeInfo (mergeTypeInfo (defaultTypeInfo exampleExternals)
              (typeInfo (target (fieldT 1 [0] [2] [[1]]))))
              (typeInfo (target (fieldT (- 5) [0] [1] [[1]]))))"
    using two_frames_raw [where i = 0 and fn = "''T''" and x = 2 and y = 1
          and rs = "framesOf [fieldT 1 [0] [2] [[1]], fieldT (- 5) [0] [1] [[1]]]"
          and ?frame1.0 = "\<lparr>dataFields = [fieldT 1 [0] [2] [[1]]]\<rparr>"
          and ?frame2.0 = "\<lparr>dataFields = [fieldT (- 5) [0] [1] [[1]]]\<rparr>"
          and ex = exampleExternals and ?info0.0 = "defaultTypeInfo exampleExternals"]
    by (simp add: framesOf_def ex1_idx) (simp add: fieldT_def)
  show ?thesis
    unfolding a b
    by (simp add: mergeTypeInfo_def exampleExternals_def fieldT_def Let_def)
qed

text \<open>
  C9.  The claim: \<open>get\<close> fails with \<open>EmptyResultSet\<close> when there is no frame, with
  \<open>UnknownField\<close> when the first frame has no field of the field name or of a non-empty
  group-by name, and with \<open>BadConversion\<close> when the override type crosses the boundary
  between strings and numbers; every failure is the whole result of the call.  The first two
  hold as stated.  The check of the override type (lines 521 to 528) reads the \<open>TypeInfo\<close>
  that \<open>getRawValues\<close> has merged, and \<open>getRawValues\<close> (line 68) runs before it: when
  \<open>getRawValues\<close> fails, \<open>get\<close> fails with that failure whatever the override type is, and
  when it has returned, \<open>get\<close> fails with \<open>BadConversion\<close> for the override \<open>string\<close> on a
  non-string \<open>TypeInfo\<close> and for a numeric type name on a string \<open>TypeInfo\<close>.  Each failure
  is the whole result of the call: no object is returned.
\<close>

theorem get_failures:
  "(dataFrames rs = [] \<longrightarrow> get ex rs fn gn ov = Inl EmptyResultSet) \<and>
   (dataFrames rs = frame0 # rest \<and>
      (\<not> hasFieldNamed frame0 fn \<or> (gn \<noteq> [] \<and> \<not> hasFieldNamed frame0 gn)) \<longrightarrow>
      get ex rs fn gn ov = Inl UnknownField) \<and>
   (dataFrames rs = frame0 # rest \<and> hasFieldNamed frame0 fn \<and>
      (gn = [] \<or> hasFieldNamed frame0 gn) \<and>
      getRawValues ex rs fn gn (defaultTypeInfo ex) = Inl e \<longrightarrow>
      get ex rs fn gn ov = Inl e) \<and>
   (getRawValues ex rs fn gn (defaultTypeInfo ex) = Inr (dat, dims, dp, ti) \<and>
      ((ov = ''string'' \<and> \<not> isString ex ti) \<or> (ov \<in> set numericOverrides \<and> isString ex ti)) \<longrightarrow>
      get ex rs fn gn ov = Inl BadConversion)"
proof (intro conjI impI)
  assume "dataFrames rs = []"
  then show "get ex rs fn gn ov = Inl EmptyResultSet" by (simp add: get_def)
next
  assume "dataFrames rs = frame0 # rest \<and>
      (\<not> hasFieldNamed frame0 fn \<or> (gn \<noteq> [] \<and> \<not> hasFieldNamed frame0 gn))"
  then show "get ex rs fn gn ov = Inl UnknownField" by (auto simp: get_def)
next
  assume "dataFrames rs = frame0 # rest \<and> hasFieldNamed frame0 fn \<and>
      (gn = [] \<or> hasFieldNamed frame0 gn) \<and>
      getRawValues ex rs fn gn (defaultTypeInfo ex) = Inl e"
  then show "get ex rs fn gn ov = Inl e" by (auto simp: get_def)
next
  assume a: "getRawValues ex rs fn gn (defaultTypeInfo ex) = Inr (dat, dims, dp, ti) \<and>
      ((ov = ''string'' \<and> \<not> isString ex ti) \<or> (ov \<in> set numericOverrides \<and> isString ex ti))"
  then have raw: "getRawValues ex rs fn gn (defaultTypeInfo ex) = Inr (dat, dims, dp, ti)"
    and cross: "(ov = ''string'' \<and> \<not> isString ex ti) \<or>
                (ov \<in> set numericOverrides \<and> isString ex ti)"
    by simp_all
  from getRawValues_Inr_names [OF raw] obtain f0 r0 where
    fr: "dataFrames rs = f0 # r0" "hasFieldNamed f0 fn" "gn \<noteq> [] \<longrightarrow> hasFieldNamed f0 gn"
    by blast
  from cross have mk: "makeDataObject ex fn gn ti ov dat dims dp = Inl BadConversion"
    by (rule makeDataObject_crossing)
  from fr raw mk show "get ex rs fn gn ov = Inl BadConversion"
    by (auto simp: get_def)
qed

theorem get_failures_witness:
  "get exampleExternals \<lparr>names = [''T''], dataFrames = []\<rparr> ''T'' [] [] = Inl EmptyResultSet \<and>
   get exampleExternals (framesOf [fieldT 1 [0] [273.15] [[1]]]) ''U'' [] [] = Inl UnknownField \<and>
   get exampleExternals (framesOf [fieldT 1 [0] [273.15] [[1]]]) ''T'' ''G'' [] = Inl UnknownField \<and>
   get exampleExternals (framesOf [fieldT 1 [0] [273.15] []]) ''T'' [] ''string'' = Inl OutOfRange \<and>
   get exampleExternals (framesOf [fieldT 1 [0] [273.15] [[1]]]) ''T'' [] ''string'' = Inl BadConversion"
proof -
  have raw: "getRawValues exampleExternals (framesOf [fieldT 1 [0] [273.15] [[1]]]) ''T'' []
               (defaultTypeInfo exampleExternals) =
             Inr ([273.15], [1], dimPaths (target (fieldT 1 [0] [273.15] [[1]])),
                  mergeTypeInfo (defaultTypeInfo exampleExternals)
                    (typeInfo (target (fieldT 1 [0] [273.15] [[1]]))))"
    using scalar_raw [of "framesOf [fieldT 1 [0] [273.15] [[1]]]"
        "\<lparr>dataFields = [fieldT 1 [0] [273.15] [[1]]]\<rparr>" "''T''" 0 "273.15" exampleExternals
        "defaultTypeInfo exampleExternals"]
    by (simp add: framesOf_def ex1_idx)
  have raw0: "getRawValues exampleExternals (framesOf [fieldT 1 [0] [273.15] []]) ''T'' []
          (defaultTypeInfo exampleExternals) = Inl OutOfRange"
    by (rule empty_counts_raw [OF _ ex1_idx]) (simp_all add: framesOf_def)
  have nostr: "\<not> isString exampleExternals
                   (mergeTypeInfo (defaultTypeInfo exampleExternals)
                      (typeInfo (target (fieldT 1 [0] [273.15] [[1]]))))"
    by (simp add: exampleExternals_def mergeTypeInfo_def fieldT_def Let_def)
  have noU: "\<not> hasFieldNamed \<lparr>dataFields = [fieldT 1 [0] [273.15] [[1]]]\<rparr> ''U''"
    "\<not> hasFieldNamed \<lparr>dataFields = [fieldT 1 [0] [273.15] [[1]]]\<rparr> ''G''"
    "hasFieldNamed \<lparr>dataFields = [fieldT 1 [0] [273.15] []]\<rparr> ''T''"
    by (simp_all add: hasFieldNamed_def fieldT_def)
  show ?thesis
    using get_failures [of "\<lparr>names = [''T''], dataFrames = []\<rparr>" exampleExternals "''T''" "[]" "[]"]
      get_failures [of "framesOf [fieldT 1 [0] [273.15] [[1]]]" exampleExternals "''U''" "[]" "[]"
        "\<lparr>dataFields = [fieldT 1 [0] [273.15] [[1]]]\<rparr>" "[]"]
      get_failures [of "framesOf [fieldT 1 [0] [273.15] [[1]]]" exampleExternals "''T''" "''G''" "[]"
        "\<lparr>dataFields = [fieldT 1 [0] [273.15] [[1]]]\<rparr>" "[]"]
      get_failures [of "framesOf [fieldT 1 [0] [273.15] []]" exampleExternals "''T''" "[]"
        "''string''" "\<lparr>dataFields = [fieldT 1 [0] [273.15] []]\<rparr>" "[]" OutOfRange]
      get_failures [of "framesOf [fieldT 1 [0] [273.15] [[1]]]" exampleExternals "''T''" "[]" "''string''"
        _ _ _ "[273.15]" "[1]" "dimPaths (target (fieldT 1 [0] [273.15] [[1]]))"
        "mergeTypeInfo (defaultTypeInfo exampleExternals)
                    (typeInfo (target (fieldT 1 [0] [273.15] [[1]])))"]
      raw raw0 nostr noU
    by (simp add: framesOf_def)
qed

text \<open>
  The override \<open>string\<close> for the numeric field \<open>T\<close>: under a group-by field \<open>G\<close> on another
  path the call fails with \<open>BadGroupByPath\<close>, and for a field \<open>T\<close> with empty sequence counts
  it ends in the read outside \<open>dims\<close>; neither is \<open>BadConversion\<close>.
\<close>

theorem get_bad_conversion_counterexample:
  "get exampleExternals
     \<lparr>names = [''T'', ''G''],
      dataFrames = [\<lparr>dataFields = [fieldOnPath ''T'' [''A'', ''T''],
                                   fieldOnPath ''G'' [''B'', ''G'']]\<rparr>]\<rparr>
     ''T'' ''G'' ''string'' = Inl BadGroupByPath \<and>
   \<not> isString exampleExternals (typeInfo (target (fieldOnPath ''T'' [''A'', ''T'']))) \<and>
   get exampleExternals (framesOf [fieldT 1 [0] [273.15] []]) ''T'' [] ''string'' =
     Inl OutOfRange \<and>
   \<not> isString exampleExternals (typeInfo (target (fieldT 1 [0] [273.15] [])))"
proof -
  have sp: "splitPath ''*/A/T'' = [''*'', ''A'', ''T'']" "splitPath ''*/B/G'' = [''*'', ''B'', ''G'']"
    by (simp_all add: splitPath_def)
  have "resolveGroupBy exampleExternals
          \<lparr>dataFields = [fieldOnPath ''T'' [''A'', ''T''], fieldOnPath ''G'' [''B'', ''G'']]\<rparr>
          0 ''G'' = Inl BadGroupByPath"
    by (simp add: resolveGroupBy_def fieldIndexForNodeNamed_def fieldAtIdx_def fieldOnPath_def
          vector_back_def exampleExternals_def wildcardQuery_def sp shareCommonPath_def
          eval_list)
  then have "getRawValues exampleExternals
     \<lparr>names = [''T'', ''G''],
      dataFrames = [\<lparr>dataFields = [fieldOnPath ''T'' [''A'', ''T''],
                                   fieldOnPath ''G'' [''B'', ''G'']]\<rparr>]\<rparr>
     ''T'' ''G'' (defaultTypeInfo exampleExternals) = Inl BadGroupByPath"
    by (simp add: getRawValues_def fieldIndexForNodeNamed_def fieldOnPath_def)
  then have a: "get exampleExternals
     \<lparr>names = [''T'', ''G''],
      dataFrames = [\<lparr>dataFields = [fieldOnPath ''T'' [''A'', ''T''],
                                   fieldOnPath ''G'' [''B'', ''G'']]\<rparr>]\<rparr>
     ''T'' ''G'' ''string'' = Inl BadGroupByPath"
    by (simp add: get_def hasFieldNamed_def fieldOnPath_def)
  have raw0: "getRawValues exampleExternals (framesOf [fieldT 1 [0] [273.15] []]) ''T'' []
          (defaultTypeInfo exampleExternals) = Inl OutOfRange"
    by (rule empty_counts_raw [OF _ ex1_idx]) (simp_all add: framesOf_def)
  have b: "get exampleExternals (framesOf [fieldT 1 [0] [273.15] []]) ''T'' [] ''string'' =
           Inl OutOfRange"
    by (rule get_raw_failure [OF _ ex1_idx raw0]) (simp add: framesOf_def)
  from a b show ?thesis
    by (simp add: exampleExternals_def fieldOnPath_def fieldT_def)
qed

text \<open>
  C10.  \<open>unit\<close> reads the first frame without a check for emptiness.  With a first frame
  that has a field of the name it returns the unit string of the target of the first such
  field; it is a function of the result set and returns nothing else, so the result set is as
  before.  With no frame it ends in \<open>front()\<close> of the empty vector, which is not
  \<open>EmptyResultSet\<close>, while \<open>get\<close> on the same result set raises \<open>EmptyResultSet\<close>.
\<close>

theorem unit_reads_first_frame:
  "(dataFrames rs = frame # rest \<and> hasFieldNamed frame fn \<longrightarrow>
      (\<exists>i. fieldIndexForNodeNamed frame fn = Inr i \<and> i < length (dataFields frame) \<and>
            Target.name (target (dataFields frame ! i)) = fn \<and>
            unit rs fn = Inr (Target.unit (target (dataFields frame ! i))))) \<and>
   (dataFrames rs = [] \<longrightarrow>
      unit rs fn = Inl OutOfRange \<and> unit rs fn \<noteq> Inl EmptyResultSet \<and>
      get ex rs fn gn ov = Inl EmptyResultSet)"
proof (intro conjI impI)
  assume a: "dataFrames rs = frame # rest \<and> hasFieldNamed frame fn"
  then obtain i where i: "fieldIndexForNodeNamed frame fn = Inr i"
    by (auto simp: hasFieldNamed_index)
  from fieldIndexForNodeNamed_Inr [OF i] a i
  have "unit rs fn = Inr (Target.unit (target (dataFields frame ! i)))"
    by (simp add: unit_def)
  moreover from i have "i < length (dataFields frame)"
    by (auto simp: fieldIndexForNodeNamed_def dest: indexOfName_Some split: option.splits)
  ultimately show "\<exists>i. fieldIndexForNodeNamed frame fn = Inr i \<and> i < length (dataFields frame) \<and>
            Target.name (target (dataFields frame ! i)) = fn \<and>
            unit rs fn = Inr (Target.unit (target (dataFields frame ! i)))"
    using i fieldIndexForNodeNamed_Inr [OF i] by blast
qed (simp_all add: unit_def get_def)

theorem unit_reads_first_frame_witness:
  "unit (framesOf [fieldT 1 [0] [273.15] [[1]]]) ''T'' = Inr ''K'' \<and>
   unit \<lparr>names = [''T''], dataFrames = []\<rparr> ''T'' = Inl OutOfRange \<and>
   get exampleExternals \<lparr>names = [''T''], dataFrames = []\<rparr> ''T'' [] [] = Inl EmptyResultSet"
  using unit_reads_first_frame [of "framesOf [fieldT 1 [0] [273.15] [[1]]]"
          "\<lparr>dataFields = [fieldT 1 [0] [273.15] [[1]]]\<rparr>" "[]" "''T''" exampleExternals "[]" "[]"]
        unit_reads_first_frame [of "\<lparr>names = [''T''], dataFrames = []\<rparr>" _ _ "''T''"
          exampleExternals "[]" "[]"]
  by (simp add: framesOf_def ex1_idx hasFieldNamed_def fieldT_def)

end
